theory Spec2Isabelle
  imports Main "HOL-Library.AList"
begin

section \<open>Data model\<close>

subsection \<open>JSON values and JSON Schema objects\<close>

text \<open>
  A JavaScript value as it occurs in a JSON Schema. An object is an association list in
  insertion order, which is the order in which JavaScript enumerates string keys;
  \<open>JUndefined\<close> is the value read from a missing key
  (for instance \<open>collectionIDFieldTypes[relation]\<close> of an unknown collection).
\<close>

datatype json =
    JUndefined
  | JNull
  | JBool bool
  | JNum int
  | JStr string
  | JArr "json list"
  | JObj "(string \<times> json) list"

text \<open>\<open>Map<string, JSONSchema4>\<close>: keys are distinct, \<open>set\<close> on a present key replaces
  the value in place, on a new key appends (\<open>AList.update\<close>).\<close>

type_synonym registry = "(string \<times> json) list"

type_synonym idFieldTypes = "string \<rightharpoonup> string"

subsection \<open>The Field Model\<close>

text \<open>Attributes every field variant may carry. \<open>required\<close> is
  \<open>'required' in field && field.required === true\<close>, \<open>condition\<close> is
  \<open>Boolean(field.admin && field.admin.condition)\<close>, \<open>typescriptSchema\<close> the list of
  user functions applied to the derived schema of the field.\<close>

record common =
  name :: "string option"
  required :: bool
  condition :: bool
  typescriptSchema :: "(json \<Rightarrow> json) list"

datatype optionT = OptionString string | OptionObject string string

datatype relationTo = RelationToOne string | RelationToMany "string list"

text \<open>A rich text editor is either still a function (unsanitized) or a resolved editor
  object, which may carry an \<open>outputSchema\<close> function. That function receives the
  ID field types, \<open>isRequired\<close> and the interface registry, which it may change.\<close>

datatype editor =
    EditorFunction
  | SanitizedEditor "(idFieldTypes \<Rightarrow> bool \<Rightarrow> registry \<Rightarrow> json \<times> registry) option"

datatype field =
    FText common bool
  | FTextarea common
  | FCode common
  | FEmail common
  | FDate common
  | FNumber common bool
  | FCheckbox common
  | FJson common "json option"
  | FRichText common "editor option"
  | FRadio common "optionT list"
  | FSelect common "optionT list" bool
  | FPoint common
  | FJoin common string
  | FUpload common relationTo bool
  | FRelationship common relationTo bool
  | FBlocks common "block list"
  | FArray common "string option" "field list"
  | FRow common "field list"
  | FCollapsible common "field list"
  | FTabs common "tab list"
  | FGroup common "string option" "field list"
  | FUI common
and block = Block string "string option" "field list"
and tab = Tab "string option" "field list"

fun commonOf :: "field \<Rightarrow> common" where
  "commonOf (FText c _) = c"
| "commonOf (FTextarea c) = c"
| "commonOf (FCode c) = c"
| "commonOf (FEmail c) = c"
| "commonOf (FDate c) = c"
| "commonOf (FNumber c _) = c"
| "commonOf (FCheckbox c) = c"
| "commonOf (FJson c _) = c"
| "commonOf (FRichText c _) = c"
| "commonOf (FRadio c _) = c"
| "commonOf (FSelect c _ _) = c"
| "commonOf (FPoint c) = c"
| "commonOf (FJoin c _) = c"
| "commonOf (FUpload c _ _) = c"
| "commonOf (FRelationship c _ _) = c"
| "commonOf (FBlocks c _) = c"
| "commonOf (FArray c _ _) = c"
| "commonOf (FRow c _) = c"
| "commonOf (FCollapsible c _) = c"
| "commonOf (FTabs c _) = c"
| "commonOf (FGroup c _ _) = c"
| "commonOf (FUI c) = c"

text \<open>\<open>field.type\<close>, the discriminant of the variant.\<close>

fun typeOf :: "field \<Rightarrow> string" where
  "typeOf (FText _ _) = ''text''"
| "typeOf (FTextarea _) = ''textarea''"
| "typeOf (FCode _) = ''code''"
| "typeOf (FEmail _) = ''email''"
| "typeOf (FDate _) = ''date''"
| "typeOf (FNumber _ _) = ''number''"
| "typeOf (FCheckbox _) = ''checkbox''"
| "typeOf (FJson _ _) = ''json''"
| "typeOf (FRichText _ _) = ''richText''"
| "typeOf (FRadio _ _) = ''radio''"
| "typeOf (FSelect _ _ _) = ''select''"
| "typeOf (FPoint _) = ''point''"
| "typeOf (FJoin _ _) = ''join''"
| "typeOf (FUpload _ _ _) = ''upload''"
| "typeOf (FRelationship _ _ _) = ''relationship''"
| "typeOf (FBlocks _ _) = ''blocks''"
| "typeOf (FArray _ _ _) = ''array''"
| "typeOf (FRow _ _) = ''row''"
| "typeOf (FCollapsible _ _) = ''collapsible''"
| "typeOf (FTabs _ _) = ''tabs''"
| "typeOf (FGroup _ _ _) = ''group''"
| "typeOf (FUI _) = ''ui''"

subsection \<open>Errors\<close>

text \<open>Every \<open>throw\<close> of the modelled code, and the \<open>TypeError\<close> JavaScript raises when a
  property of \<open>undefined\<close> is read.\<close>

datatype error =
    MissingEditorProp field
  | Error string
  | TypeError string
  | QueryError "string list"
  | InvalidPath string

subsection \<open>Query values, pipeline stages, resolved paths\<close>

text \<open>Values of a MongoDB query. \<open>ObjectId s\<close> is the object built by the ObjectId
  constructor from the string \<open>s\<close>; \<open>ParseFloat s\<close> is the number \<open>parseFloat(s)\<close>,
  kept symbolic.\<close>

datatype qval =
    QUndefined
  | QNull
  | QBool bool
  | QNum int
  | QStr string
  | QArr "qval list"
  | QObj "(string \<times> qval) list"
  | ObjectId string
  | ParseFloat string

datatype PipelineStage =
    Lookup (lookupAs: string) (foreignField: string) (lookupFrom: string) (localField: string)
  | Match qval
  | Project "(string \<times> bool) list"

record PathToQuery =
  collectionSlug :: "string option"
  complete :: bool
  field :: field
  path :: string

record SearchParam =
  spPath :: "string option"
  spValue :: qval

datatype idType = IdNumber | IdText

record EntityConfig =
  slug :: string
  entityFields :: "field list"

record Collection =
  customIDType :: "idType option"
  config :: EntityConfig

record Payload =
  collections :: "string \<rightharpoonup> Collection"
  globals :: "EntityConfig list"

text \<open>What \<open>sanitizeQueryValue\<close> returns: \<open>rawQuery\<close> is \<open>None\<close> when absent (falsy), and
  \<open>Some q\<close> for a raw query object.\<close>

record Sanitized =
  sanOperator :: "string option"
  rawQuery :: "qval option"
  sanVal :: qval

text \<open>
  The functions and tables \<open>buildSearchParam\<close> imports from files that are not part of the
  sources at hand are parameters of the model: the path resolver \<open>getLocalizedPaths\<close>,
  \<open>sanitizeQueryValue\<close>, the table \<open>operatorMap\<close>, \<open>mongoose.Types.ObjectId.isValid\<close>, and
  the set of strings the \<open>ObjectId\<close> constructor of \<open>bson-objectid\<close> accepts (it throws on
  every other string).
\<close>

record externals =
  getLocalizedPaths ::
    "string option \<Rightarrow> field list \<Rightarrow> string option \<Rightarrow> string \<Rightarrow> string option \<Rightarrow> Payload
      \<Rightarrow> error + PathToQuery list"
  sanitizeQueryValue :: "field \<Rightarrow> bool \<Rightarrow> string \<Rightarrow> string \<Rightarrow> qval \<Rightarrow> Sanitized"
  operatorMap :: "string \<rightharpoonup> string"
  isValid :: "string \<Rightarrow> bool"
  objectIdAccepts :: "string \<Rightarrow> bool"

text \<open>Modelled from the spec: the constant \<open>validOperators\<close> of \<open>payload/shared\<close> is not
  among the sources; the spec gives the fixed closed operator set.\<close>

definition validOperators :: "string list" where
  "validOperators =
    [''equals'', ''not_equals'', ''in'', ''not_in'', ''all'', ''exists'', ''greater_than'',
     ''greater_than_equal'', ''less_than'', ''less_than_equal'', ''like'', ''contains'',
     ''within'', ''intersects'', ''near'']"

section \<open>The query translator: \<open>buildSearchParam\<close>\<close>

subsection \<open>String primitives\<close>

text \<open>\<open>s.replace(/__/g, '.')\<close>: every non-overlapping \<open>__\<close>, from the left.\<close>

fun replaceDoubleUnderscore :: "string \<Rightarrow> string" where
  "replaceDoubleUnderscore (a # b # cs) =
     (if a = CHR ''_'' \<and> b = CHR ''_'' then CHR ''.'' # replaceDoubleUnderscore cs
      else a # replaceDoubleUnderscore (b # cs))"
| "replaceDoubleUnderscore cs = cs"

text \<open>\<open>s.endsWith('s')\<close>.\<close>

definition endsWith_s :: "string \<Rightarrow> bool" where
  "endsWith_s s = (case rev s of [] \<Rightarrow> False | c # _ \<Rightarrow> c = CHR ''s'')"

text \<open>\<open>s.split(' ')\<close>: cut at every single space; the empty string gives one empty
  piece, two adjacent spaces give an empty piece between them.\<close>

fun split_space :: "string \<Rightarrow> string list" where
  "split_space [] = [[]]"
| "split_space (c # cs) =
     (if c = CHR '' '' then [] # split_space cs
      else (case split_space cs of [] \<Rightarrow> [[c]] | w # ws \<Rightarrow> (c # w) # ws))"

text \<open>The characters of the class \<open>[\\^$*+?.()|[\]{}]\<close>; \<open>CHR 0x5C\<close> is the backslash.\<close>

definition regexMetaChars :: "char list" where
  "regexMetaChars = CHR 0x5C # ''^$*+?.()|[]{}''"

text \<open>\<open>word.replace(/[\\^$*+?.()|[\]{}]/g, '\\$&')\<close>: a backslash before every
  metacharacter.\<close>

definition escapeRegex :: "string \<Rightarrow> string" where
  "escapeRegex w = concat (map (\<lambda>c. if c \<in> set regexMetaChars then [CHR 0x5C, c] else [c]) w)"

text \<open>\<open>xs.join('.')\<close>.\<close>

fun join_dot :: "string list \<Rightarrow> string" where
  "join_dot [] = []"
| "join_dot [x] = x"
| "join_dot (x # y # ys) = x @ ''.'' @ join_dot (y # ys)"

text \<open>A computed key \<open>[operatorKey]\<close>: \<open>undefined\<close> becomes the key \<open>"undefined"\<close>.\<close>

definition keyOf :: "string option \<Rightarrow> string" where
  "keyOf k = (case k of None \<Rightarrow> ''undefined'' | Some s \<Rightarrow> s)"

text \<open>\<open>new ObjectId(s)\<close> of \<open>bson-objectid\<close>.\<close>

definition newObjectId :: "externals \<Rightarrow> string \<Rightarrow> error + qval" where
  "newObjectId ext s =
     (if objectIdAccepts ext s then Inr (ObjectId s)
      else Inl (Error ''Argument passed in must be a single String of 12 bytes or a string of 24 hex characters''))"

subsection \<open>Lines 48-85: the resolved path list\<close>

text \<open>The first part of \<open>buildSearchParam\<close>: the incoming path is normalised, the identity
  field is answered directly, every other path goes to \<open>getLocalizedPaths\<close>. The result is
  the list \<open>paths\<close> and the flag \<open>hasCustomID\<close>.\<close>

definition sanitizePath :: "string \<Rightarrow> string" where
  "sanitizePath incomingPath =
     (let sanitizedPath = replaceDoubleUnderscore incomingPath
      in if sanitizedPath = ''id'' then ''_id'' else sanitizedPath)"

text \<open>\<open>payload.collections[collectionSlug]?.customIDType\<close>.\<close>

definition customIDTypeOf :: "Payload \<Rightarrow> string option \<Rightarrow> idType option" where
  "customIDTypeOf payload cslug =
     (case cslug of None \<Rightarrow> None
      | Some s \<Rightarrow> (case collections payload s of None \<Rightarrow> None | Some c \<Rightarrow> customIDType c))"

text \<open>The literal \<open>{ name: 'id', type: idFieldType } as Field\<close>.\<close>

definition idField :: "idType \<Rightarrow> field" where
  "idField t =
     (let c = \<lparr>name = Some ''id'', required = False, condition = False, typescriptSchema = []\<rparr>
      in case t of IdNumber \<Rightarrow> FNumber c False | IdText \<Rightarrow> FText c False)"

definition resolvePaths ::
  "externals \<Rightarrow> Payload \<Rightarrow> string option \<Rightarrow> field list \<Rightarrow> string option \<Rightarrow> string
     \<Rightarrow> string option \<Rightarrow> error + (PathToQuery list \<times> bool)" where
  "resolvePaths ext payload cslug flds globalSlug incomingPath localeCode =
     (let sanitizedPath = sanitizePath incomingPath
      in if sanitizedPath = ''_id'' then
           (let customIDFieldType = customIDTypeOf payload cslug;
                idFieldType = (case customIDFieldType of None \<Rightarrow> IdText | Some t \<Rightarrow> t);
                hasCustomID = (customIDFieldType \<noteq> None)
            in Inr ([\<lparr>collectionSlug = cslug, complete = True, field = idField idFieldType,
                       path = ''_id''\<rparr>], hasCustomID))
         else
           (case getLocalizedPaths ext cslug flds globalSlug sanitizedPath localeCode payload of
              Inl e \<Rightarrow> Inl e
            | Inr paths \<Rightarrow> Inr (paths, False)))"

subsection \<open>Lines 108-151: the loop that pushes the join stages\<close>

record loopState =
  currentPath :: "string option"
  pipeline :: "PipelineStage list"
  projection :: "(string \<times> bool) list option"
  isID :: bool

text \<open>The collection name of a join stage, lines 134-136.\<close>

definition fromName :: "string \<Rightarrow> string" where
  "fromName cslug = (if endsWith_s cslug then cslug else cslug @ ''s'')"

text \<open>Lines 116-118: \<open>if (!currentPath) currentPath = pathToQuery.path\<close>; \<open>undefined\<close> and
  the empty string are the falsy values.\<close>

definition currentOr :: "string option \<Rightarrow> string \<Rightarrow> string" where
  "currentOr cp pth = (case cp of None \<Rightarrow> pth | Some c \<Rightarrow> if c = [] then pth else c)"

text \<open>Lines 130-150 at index \<open>i\<close>, with \<open>cur\<close> the current path and \<open>cslug\<close> the collection
  slug of the segment: the stage is pushed, the alias is removed from a projection object
  at \<open>i = 1\<close>, the segment's path is appended to the current path.\<close>

definition pushLookup :: "nat \<Rightarrow> string \<Rightarrow> string \<Rightarrow> string \<Rightarrow> loopState \<Rightarrow> loopState" where
  "pushLookup i cur cslug pth st =
     st\<lparr>currentPath := Some (if cur = [] then pth else cur @ ''.'' @ pth),
        pipeline := pipeline st @
          [Lookup (CHR ''_'' # cur) ''_id'' (fromName cslug)
             (if i = 1 then cur else CHR ''_'' # cur)],
        projection :=
          (if i = 1 then
             (case projection st of
                None \<Rightarrow> None
              | Some pr \<Rightarrow> Some (AList.update (CHR ''_'' # cur) False pr))
           else projection st)\<rparr>"

text \<open>
  One call is one test of the loop condition at index \<open>i\<close>. \<open>break\<close> returns the state,
  \<open>continue\<close> goes to \<open>i + 1\<close>. \<open>pathToQuery.collectionSlug.endsWith\<close> on a missing slug is a
  \<open>TypeError\<close>. The test \<open>i + 1 === paths.length - 1\<close> is written \<open>i + 2 = length paths\<close>,
  which is the same on integers.
\<close>

function lookupLoop :: "PathToQuery list \<Rightarrow> nat \<Rightarrow> loopState \<Rightarrow> error + loopState" where
  "lookupLoop paths i st =
     (if i < length paths then
        (let pathToQuery = paths ! i;
             cur = currentOr (currentPath st) (path pathToQuery)
         in if i + 2 = length paths \<and> path (paths ! (i + 1)) = ''id'' then
              Inr (st\<lparr>currentPath := Some cur, isID := True\<rparr>)
            else if i = 0 then
              lookupLoop paths (i + 1) (st\<lparr>currentPath := Some cur\<rparr>)
            else
              (case collectionSlug pathToQuery of
                 None \<Rightarrow> Inl (TypeError ''Cannot read properties of undefined (reading endsWith)'')
               | Some cslug \<Rightarrow>
                   lookupLoop paths (i + 1) (pushLookup i cur cslug (path pathToQuery) st)))
      else Inr st)"
  by pat_completeness auto
termination
  by (relation "measure (\<lambda>(paths, i, st). length paths - i)") auto

declare lookupLoop.simps [simp del]

subsection \<open>Lines 153-165: the path the filter is put on\<close>

text \<open>\<open>paths.map(...).filter(Boolean).join('.')\<close>: the segment before a final \<open>id\<close> is
  dropped, and \<open>filter(Boolean)\<close> also drops empty segment paths.\<close>

definition joinedPath :: "PathToQuery list \<Rightarrow> string" where
  "joinedPath paths =
     CHR ''_'' # join_dot (filter (\<lambda>s. s \<noteq> [])
       (map (\<lambda>i. if i + 2 = length paths \<and> path (paths ! (i + 1)) = ''id'' then []
                 else path (paths ! i)) [0..<length paths]))"

definition filterPath :: "PathToQuery list \<Rightarrow> string" where
  "filterPath paths =
     (if length paths = 2 \<and> path (paths ! 1) = ''id'' then path (paths ! 0)
      else joinedPath paths)"

subsection \<open>Lines 172-248: the comparison fragment\<close>

definition isRelationshipOrUpload :: "field \<Rightarrow> bool" where
  "isRelationshipOrUpload f = (typeOf f = ''relationship'' \<or> typeOf f = ''upload'')"

text \<open>\<open>Array.isArray(field.relationTo) ? field.relationTo : [field.relationTo]\<close>; a field
  without \<open>relationTo\<close> gives \<open>[undefined]\<close>, which names no collection.\<close>

fun relationTargets :: "field \<Rightarrow> string option list" where
  "relationTargets (FRelationship _ (RelationToOne r) _) = [Some r]"
| "relationTargets (FRelationship _ (RelationToMany rs) _) = map Some rs"
| "relationTargets (FUpload _ (RelationToOne r) _) = [Some r]"
| "relationTargets (FUpload _ (RelationToMany rs) _) = map Some rs"
| "relationTargets _ = [None]"

definition hasNumberIDRelation :: "Payload \<Rightarrow> field \<Rightarrow> bool" where
  "hasNumberIDRelation payload f =
     list_ex (\<lambda>r. customIDTypeOf payload r = Some IdNumber) (relationTargets f)"

definition validOperator :: "string option \<Rightarrow> bool" where
  "validOperator formattedOperator =
     (case formattedOperator of None \<Rightarrow> False | Some op \<Rightarrow> op \<noteq> [] \<and> op \<in> set validOperators)"

text \<open>Lines 175-216. The result is \<open>Inr None\<close> when the branch is not taken or ends with a
  single condition, so that the code goes on below it.\<close>

definition multiIDQuery ::
  "externals \<Rightarrow> Payload \<Rightarrow> PathToQuery list \<Rightarrow> field \<Rightarrow> string \<Rightarrow> string option \<Rightarrow> qval
     \<Rightarrow> error + SearchParam option" where
  "multiIDQuery ext payload paths fld pth operatorKey formattedValue =
     (if length paths < 2 \<and> isRelationshipOrUpload fld then
        (let multiIDCondition = (if operatorKey = Some ''$ne'' then ''$and'' else ''$or'');
             cond = (\<lambda>v. QObj [(pth, QObj [(keyOf operatorKey, v)])]);
             first = [cond formattedValue];
             finish = (\<lambda>conds. if length conds > 1
                         then Some \<lparr>spPath = None, spValue = QObj [(multiIDCondition, QArr conds)]\<rparr>
                         else None)
         in case formattedValue of
              QStr s \<Rightarrow>
                (if isValid ext s then
                   (case newObjectId ext s of
                      Inl e \<Rightarrow> Inl e
                    | Inr oid \<Rightarrow> Inr (finish (first @ [cond oid])))
                 else if hasNumberIDRelation payload fld then
                   Inr (finish (first @ [cond (ParseFloat s)]))
                 else Inr (finish first))
            | _ \<Rightarrow> Inr (finish first))
      else Inr None)"

text \<open>Lines 218-233, the \<open>like\<close> operator on a string.\<close>

definition likeQuery :: "string \<Rightarrow> string \<Rightarrow> SearchParam" where
  "likeQuery pth s =
     \<lparr>spPath = None,
      spValue = QObj [(''$and'',
        QArr (map (\<lambda>word. QObj [(pth, QObj [(''$options'', QStr ''i''),
                                              (''$regex'', QStr (escapeRegex word))])])
                  (split_space s)))]\<rparr>"

text \<open>Lines 235-247: without an operator key the value itself is the query.\<close>

definition plainQuery :: "string \<Rightarrow> string option \<Rightarrow> qval \<Rightarrow> SearchParam" where
  "plainQuery pth operatorKey formattedValue =
     (if operatorKey = None \<or> operatorKey = Some [] then
        \<lparr>spPath = Some pth, spValue = formattedValue\<rparr>
      else \<lparr>spPath = Some pth, spValue = QObj [(keyOf operatorKey, formattedValue)]\<rparr>)"

definition operatorQuery ::
  "externals \<Rightarrow> Payload \<Rightarrow> PathToQuery list \<Rightarrow> field \<Rightarrow> string \<Rightarrow> string option \<Rightarrow> qval
     \<Rightarrow> error + SearchParam option" where
  "operatorQuery ext payload paths fld pth formattedOperator formattedValue =
     (if validOperator formattedOperator then
        (let operatorKey = operatorMap ext (the formattedOperator)
         in case multiIDQuery ext payload paths fld pth operatorKey formattedValue of
              Inl e \<Rightarrow> Inl e
            | Inr (Some res) \<Rightarrow> Inr (Some res)
            | Inr None \<Rightarrow>
                (case formattedValue of
                   QStr s \<Rightarrow>
                     (if formattedOperator = Some ''like'' then Inr (Some (likeQuery pth s))
                      else Inr (Some (plainQuery pth operatorKey formattedValue)))
                 | _ \<Rightarrow> Inr (Some (plainQuery pth operatorKey formattedValue))))
      else Inr None)"

subsection \<open>The whole function\<close>

record SearchArgs =
  argCollectionSlug :: "string option"
  argFields :: "field list"
  argGlobalSlug :: "string option"
  argIncomingPath :: string
  argLocale :: "string option"
  argOperator :: string
  argPayload :: Payload
  argPipeline :: "PipelineStage list"
  argProjection :: "(string \<times> bool) list option"
  argVal :: qval

text \<open>Lines 108-170: joins, filter path and the coercion of the value of an \<open>id\<close> hop.\<close>

definition crossCollection ::
  "externals \<Rightarrow> PathToQuery list \<Rightarrow> PipelineStage list \<Rightarrow> (string \<times> bool) list option \<Rightarrow> qval
     \<Rightarrow> error + (string \<times> qval \<times> PipelineStage list \<times> (string \<times> bool) list option)" where
  "crossCollection ext paths pl proj formattedValue =
     (case lookupLoop paths 0
             \<lparr>currentPath = None, pipeline = pl, projection = proj, isID = False\<rparr> of
        Inl e \<Rightarrow> Inl e
      | Inr st \<Rightarrow>
          (case formattedValue of
             QStr s \<Rightarrow>
               (if isID st then
                  (case newObjectId ext s of
                     Inl e \<Rightarrow> Inl e
                   | Inr oid \<Rightarrow> Inr (filterPath paths, oid, pipeline st, projection st))
                else Inr (filterPath paths, formattedValue, pipeline st, projection st))
           | _ \<Rightarrow> Inr (filterPath paths, formattedValue, pipeline st, projection st)))"

text \<open>The result is the returned \<open>SearchParam\<close> (\<open>None\<close> for \<open>undefined\<close>) together with the
  pipeline and the projection as the call leaves them. After a throw the caller's pipeline
  may already hold stages; the model does not follow it there.\<close>

definition buildSearchParam ::
  "externals \<Rightarrow> SearchArgs
     \<Rightarrow> error + (SearchParam option \<times> PipelineStage list \<times> (string \<times> bool) list option)" where
  "buildSearchParam ext a =
     (case resolvePaths ext (argPayload a) (argCollectionSlug a) (argFields a) (argGlobalSlug a)
             (argIncomingPath a) (argLocale a) of
        Inl e \<Rightarrow> Inl e
      | Inr (paths, hasCustomID) \<Rightarrow>
          (case paths of
             [] \<Rightarrow> Inl (TypeError ''Cannot read properties of undefined (reading path)'')
           | p0 # _ \<Rightarrow>
               (if path p0 = [] then Inr (None, argPipeline a, argProjection a)
                else
                  (let result = sanitizeQueryValue ext (field p0) hasCustomID (argOperator a)
                                  (path p0) (argVal a)
                   in case rawQuery result of
                        Some rq \<Rightarrow>
                          Inr (Some \<lparr>spPath = None, spValue = rq\<rparr>, argPipeline a, argProjection a)
                      | None \<Rightarrow>
                          (case (if length paths > 1
                                 then crossCollection ext paths (argPipeline a) (argProjection a)
                                        (sanVal result)
                                 else Inr (path p0, sanVal result, argPipeline a, argProjection a)) of
                             Inl e \<Rightarrow> Inl e
                           | Inr (pth, formattedValue, pl, proj) \<Rightarrow>
                               (case operatorQuery ext (argPayload a) paths (field p0) pth
                                       (sanOperator result) formattedValue of
                                  Inl e \<Rightarrow> Inl e
                                | Inr res \<Rightarrow> Inr (res, pl, proj)))))))"

section \<open>\<open>buildQuery\<close> of the MongoDB adapter\<close>

text \<open>The \<open>Where\<close> tree of the data model: connectors over children, or a leaf with a field
  path, an operator and a value.\<close>

datatype whereT =
    WhereAnd "whereT list"
  | WhereOr "whereT list"
  | WhereLeaf string string qval

text \<open>\<open>parseParams\<close> is not among the sources; it is the parameter \<open>parseParams\<close> below,
  called with the arguments \<open>buildQuery\<close> gives it. It does not receive \<open>errors\<close>.\<close>

type_synonym parseParamsT =
  "string option \<Rightarrow> field list option \<Rightarrow> string option \<Rightarrow> string option \<Rightarrow> Payload
     \<Rightarrow> PipelineStage list \<Rightarrow> (string \<times> bool) list option \<Rightarrow> whereT
     \<Rightarrow> error + (qval \<times> PipelineStage list \<times> (string \<times> bool) list option)"

text \<open>Lines 38-48: the fields to query. \<open>globalConfig.fields\<close> of a slug that is not found
  and \<open>payload.collections[collectionSlug].config\<close> of an unknown collection are
  \<open>TypeError\<close>s.\<close>

definition truthyString :: "string option \<Rightarrow> bool" where
  "truthyString s = (case s of None \<Rightarrow> False | Some t \<Rightarrow> t \<noteq> [])"

definition queryFields ::
  "field list option \<Rightarrow> string option \<Rightarrow> string option \<Rightarrow> Payload \<Rightarrow> error + field list option" where
  "queryFields versionsFields cslug globalSlug payload =
     (case versionsFields of
        Some flds \<Rightarrow> Inr (Some flds)
      | None \<Rightarrow>
          (case (if truthyString globalSlug then
                   (case find (\<lambda>g. Some (slug g) = globalSlug) (globals payload) of
                      None \<Rightarrow> Inl (TypeError ''Cannot read properties of undefined (reading fields)'')
                    | Some globalConfig \<Rightarrow> Inr (Some (entityFields globalConfig)))
                 else Inr None) of
             Inl e \<Rightarrow> Inl e
           | Inr flds \<Rightarrow>
               (if truthyString cslug then
                  (case collections payload (the cslug) of
                     None \<Rightarrow> Inl (TypeError ''Cannot read properties of undefined (reading config)'')
                   | Some c \<Rightarrow> Inr (Some (entityFields (config c))))
                else Inr flds)))"

definition buildQuery ::
  "parseParamsT \<Rightarrow> string option \<Rightarrow> field list option \<Rightarrow> string option \<Rightarrow> string option
     \<Rightarrow> Payload \<Rightarrow> PipelineStage list \<Rightarrow> (string \<times> bool) list option \<Rightarrow> whereT
     \<Rightarrow> error + (qval \<times> PipelineStage list \<times> (string \<times> bool) list option)" where
  "buildQuery parseParams cslug versionsFields globalSlug localeCode payload pl proj wh =
     (case queryFields versionsFields cslug globalSlug payload of
        Inl e \<Rightarrow> Inl e
      | Inr flds \<Rightarrow>
          (let errors = ([] :: string list)
           in case parseParams cslug flds globalSlug localeCode payload pl proj wh of
                Inl e \<Rightarrow> Inl e
              | Inr result \<Rightarrow>
                  (if length errors > 0 then Inl (QueryError errors) else Inr result)))"

section \<open>Concrete inputs\<close>

text \<open>Parameters used to run the model on concrete inputs: a resolver that answers with a
  fixed path list, a \<open>sanitizeQueryValue\<close> that leaves operator and value as they are, the
  operator table of the adapter, and 24 hexadecimal digits as the valid ObjectId strings.\<close>

definition isHex24 :: "string \<Rightarrow> bool" where
  "isHex24 s = (length s = 24 \<and> list_all (\<lambda>c. c \<in> set ''0123456789abcdefABCDEF'') s)"

definition demoOperatorMap :: "string \<rightharpoonup> string" where
  "demoOperatorMap = map_of
     [(''all'', ''$all''), (''contains'', ''$regex''), (''equals'', ''$eq''),
      (''exists'', ''$exists''), (''greater_than'', ''$gt''), (''greater_than_equal'', ''$gte''),
      (''in'', ''$in''), (''intersects'', ''$geoIntersects''), (''less_than'', ''$lt''),
      (''less_than_equal'', ''$lte''), (''near'', ''$near''), (''not_equals'', ''$ne''),
      (''not_in'', ''$nin''), (''within'', ''$geoWithin'')]"

definition demoExt :: "PathToQuery list \<Rightarrow> externals" where
  "demoExt ps =
     \<lparr>getLocalizedPaths = (\<lambda>cslug flds globalSlug incomingPath localeCode payload. Inr ps),
      sanitizeQueryValue = (\<lambda>fld hasCustomID operator pth v.
         \<lparr>sanOperator = Some operator, rawQuery = None, sanVal = v\<rparr>),
      operatorMap = demoOperatorMap,
      isValid = isHex24,
      objectIdAccepts = isHex24\<rparr>"

definition plainCommon :: "string \<Rightarrow> common" where
  "plainCommon n = \<lparr>name = Some n, required = False, condition = False, typescriptSchema = []\<rparr>"

definition demoSegment :: "string \<Rightarrow> field \<Rightarrow> string \<Rightarrow> PathToQuery" where
  "demoSegment cslug fld pth = \<lparr>collectionSlug = Some cslug, complete = True, field = fld, path = pth\<rparr>"

definition demoPayload :: Payload where
  "demoPayload =
     \<lparr>collections = map_of
        [(''posts'', \<lparr>customIDType = None,
            config = \<lparr>slug = ''posts'', entityFields =
              [FText (plainCommon ''title'') False,
               FRelationship (plainCommon ''author'') (RelationToOne ''users'') False,
               FRelationship (plainCommon ''category'') (RelationToOne ''category'') False]\<rparr>\<rparr>),
         (''users'', \<lparr>customIDType = None,
            config = \<lparr>slug = ''users'', entityFields =
              [FText (plainCommon ''name'') False,
               FRelationship (plainCommon ''company'') (RelationToOne ''companies'') False]\<rparr>\<rparr>),
         (''companies'', \<lparr>customIDType = None,
            config = \<lparr>slug = ''companies'', entityFields = [FText (plainCommon ''city'') False]\<rparr>\<rparr>),
         (''category'', \<lparr>customIDType = Some IdNumber,
            config = \<lparr>slug = ''category'', entityFields = [FText (plainCommon ''label'') False]\<rparr>\<rparr>)],
      globals = []\<rparr>"

definition demoArgs :: "string \<Rightarrow> string \<Rightarrow> qval \<Rightarrow> SearchArgs" where
  "demoArgs incomingPath operator v =
     \<lparr>argCollectionSlug = Some ''posts'', argFields = [], argGlobalSlug = None,
      argIncomingPath = incomingPath, argLocale = None, argOperator = operator,
      argPayload = demoPayload, argPipeline = [], argProjection = None, argVal = v\<rparr>"

text \<open>\<open>author.company.city\<close> from \<open>posts\<close>: two relationship hops, three segments.\<close>

definition authorCompanyCity :: "PathToQuery list" where
  "authorCompanyCity =
     [demoSegment ''posts'' (FRelationship (plainCommon ''author'') (RelationToOne ''users'') False) ''author'',
      demoSegment ''users'' (FRelationship (plainCommon ''company'') (RelationToOne ''companies'') False) ''company'',
      demoSegment ''companies'' (FText (plainCommon ''city'') False) ''city'']"

text \<open>\<open>author.company.id\<close>: the last segment is the identity field of \<open>companies\<close>.\<close>

definition authorCompanyId :: "PathToQuery list" where
  "authorCompanyId =
     [demoSegment ''posts'' (FRelationship (plainCommon ''author'') (RelationToOne ''users'') False) ''author'',
      demoSegment ''users'' (FRelationship (plainCommon ''company'') (RelationToOne ''companies'') False) ''company'',
      demoSegment ''companies'' (idField IdText) ''id'']"

text \<open>\<open>author.id\<close>.\<close>

definition authorId :: "PathToQuery list" where
  "authorId =
     [demoSegment ''posts'' (FRelationship (plainCommon ''author'') (RelationToOne ''users'') False) ''author'',
      demoSegment ''users'' (idField IdText) ''id'']"



definition titleOnly :: "PathToQuery list" where
  "titleOnly = [demoSegment ''posts'' (FText (plainCommon ''title'') False) ''title'']"

text \<open>Following the spec's words for the \<open>like\<close> operator: the value tokenized on
  whitespace, that is, its maximal runs of characters that are not whitespace.\<close>

definition isWhitespace :: "char \<Rightarrow> bool" where
  "isWhitespace c = (c \<in> set [CHR '' '', CHR 0x09, CHR 0x0A, CHR 0x0B, CHR 0x0C, CHR 0x0D])"

fun whitespaceTokensFrom :: "string \<Rightarrow> string \<Rightarrow> string list" where
  "whitespaceTokensFrom cur [] = (if cur = [] then [] else [cur])"
| "whitespaceTokensFrom cur (c # cs) =
     (if isWhitespace c then (if cur = [] then whitespaceTokensFrom [] cs
                              else cur # whitespaceTokensFrom [] cs)
      else whitespaceTokensFrom (cur @ [c]) cs)"

definition whitespaceTokens :: "string \<Rightarrow> string list" where
  "whitespaceTokens s = whitespaceTokensFrom [] s"

text \<open>\<open>category.label\<close> from \<open>posts\<close>: one hop into the collection with slug \<open>category\<close>.\<close>

definition categoryLabel :: "PathToQuery list" where
  "categoryLabel =
     [demoSegment ''posts'' (FRelationship (plainCommon ''category'') (RelationToOne ''category'') False) ''category'',
      demoSegment ''category'' (FText (plainCommon ''label'') False) ''label'']"

text \<open>\<open>author.name\<close> from \<open>posts\<close>: one hop into the collection with slug \<open>users\<close>.\<close>

definition authorName :: "PathToQuery list" where
  "authorName =
     [demoSegment ''posts'' (FRelationship (plainCommon ''author'') (RelationToOne ''users'') False) ''author'',
      demoSegment ''users'' (FText (plainCommon ''name'') False) ''name'']"

section \<open>Schema derivation: \<open>configToJSONSchema.ts\<close>\<close>

subsection \<open>Helpers\<close>

text \<open>JavaScript truthiness of a JSON value (\<open>fieldSchema && ...\<close>,
  \<open>field.jsonSchema?.schema || ...\<close>).\<close>

fun truthy :: "json \<Rightarrow> bool" where
  "truthy JUndefined = False"
| "truthy JNull = False"
| "truthy (JBool b) = b"
| "truthy (JNum n) = (n \<noteq> 0)"
| "truthy (JStr s) = (s \<noteq> [])"
| "truthy (JArr _) = True"
| "truthy (JObj _) = True"

text \<open>Modelled from the spec: \<open>fieldAffectsData\<close> of \<open>fields/config/types.ts\<close> is not among
  the sources. The spec: a field's data-affecting status is determined solely by its type
  plus presence of a name; the layout kinds \<open>row\<close>, \<open>collapsible\<close>, \<open>tabs\<close> and \<open>ui\<close> never
  affect data directly.\<close>

definition fieldAffectsData :: "field \<Rightarrow> bool" where
  "fieldAffectsData f =
     (name (commonOf f) \<noteq> None \<and>
      typeOf f \<notin> set [''row'', ''collapsible'', ''tabs'', ''ui''])"

text \<open>\<open>field.name\<close> of a field that affects data.\<close>

definition nameOf :: "field \<Rightarrow> string" where
  "nameOf f = (case name (commonOf f) of None \<Rightarrow> ''undefined'' | Some n \<Rightarrow> n)"

text \<open>Lines 19-46. \<open>'fields' in field && field.type !== 'array'\<close> holds for groups, rows and
  collapsibles; a tab counts when it has a name.\<close>

fun fieldIsRequired :: "field \<Rightarrow> bool"
  and someRequired :: "field list \<Rightarrow> bool"
  and someTabRequired :: "tab list \<Rightarrow> bool" where
  "fieldIsRequired f =
     (if condition (commonOf f) then False
      else if fieldAffectsData f \<and> required (commonOf f) then True
      else (case f of
              FGroup _ _ subFields \<Rightarrow> someRequired subFields
            | FRow _ subFields \<Rightarrow> someRequired subFields
            | FCollapsible _ subFields \<Rightarrow> someRequired subFields
            | FTabs _ tabs \<Rightarrow> someTabRequired tabs
            | _ \<Rightarrow> False))"
| "someRequired [] = False"
| "someRequired (subField # rest) = (fieldIsRequired subField \<or> someRequired rest)"
| "someTabRequired [] = False"
| "someTabRequired (Tab None _ # rest) = someTabRequired rest"
| "someTabRequired (Tab (Some _) subFields # rest) = (someRequired subFields \<or> someTabRequired rest)"

declare fieldIsRequired.simps(1) [simp del]

text \<open>Lines 48-56.\<close>

definition buildOptionEnums :: "optionT list \<Rightarrow> string list" where
  "buildOptionEnums options =
     map (\<lambda>opt. case opt of OptionString s \<Rightarrow> s | OptionObject _ v \<Rightarrow> v) options"

text \<open>Lines 142-152.\<close>

definition withNullableJSONSchemaType :: "json \<Rightarrow> bool \<Rightarrow> json" where
  "withNullableJSONSchemaType fieldType isRequired =
     (if isRequired then fieldType else JArr [fieldType, JStr ''null''])"

text \<open>\<open>collectionIDFieldTypes[relation]\<close>.\<close>

definition idTypeOf :: "idFieldTypes \<Rightarrow> string \<Rightarrow> json" where
  "idTypeOf ids relation = (case ids relation of None \<Rightarrow> JUndefined | Some t \<Rightarrow> JStr t)"

definition refTo :: "string \<Rightarrow> json" where
  "refTo n = JObj [(''$ref'', JStr (''#/definitions/'' @ n))]"

text \<open>\<open>Set.add\<close> on the insertion-ordered set of required names.\<close>

definition addName :: "string \<Rightarrow> string list \<Rightarrow> string list" where
  "addName n names = (if n \<in> set names then names else names @ [n])"

text \<open>\<open>Object.entries(childSchema.properties).forEach(...set...)\<close> and
  \<open>childSchema.required.forEach(...add...)\<close>.\<close>

definition setAll :: "(string \<times> json) list \<Rightarrow> (string \<times> json) list \<Rightarrow> (string \<times> json) list" where
  "setAll entries m = foldl (\<lambda>acc (k, v). AList.update k v acc) m entries"

definition addAll :: "string list \<Rightarrow> string list \<Rightarrow> string list" where
  "addAll ns names = foldl (\<lambda>acc n. addName n acc) names ns"

text \<open>The object \<open>{ type: 'object', additionalProperties: false, properties, required }\<close> that
  the spread of a \<open>fieldsToJSONSchema\<close> result builds.\<close>

definition objectSchema :: "(string \<times> json) list \<Rightarrow> string list \<Rightarrow> json" where
  "objectSchema props req =
     JObj [(''type'', JStr ''object''), (''additionalProperties'', JBool False),
           (''properties'', JObj props), (''required'', JArr (map JStr req))]"

subsection \<open>The fields without child fields\<close>

text \<open>The value \<open>{ oneOf: [{ type: idType }, { $ref }] }\<close> of a relation to one collection.\<close>

definition idOrEntity :: "idFieldTypes \<Rightarrow> string \<Rightarrow> json" where
  "idOrEntity ids relation =
     JObj [(''oneOf'', JArr [JObj [(''type'', idTypeOf ids relation)], refTo relation])]"

definition polymorphicBranch :: "idFieldTypes \<Rightarrow> json \<Rightarrow> string \<Rightarrow> json" where
  "polymorphicBranch ids ty relation =
     JObj [(''type'', ty), (''additionalProperties'', JBool False),
           (''properties'', JObj [(''relationTo'', JObj [(''const'', JStr relation)]),
                                  (''value'', idOrEntity ids relation)]),
           (''required'', JArr [JStr ''value'', JStr ''relationTo''])]"

text \<open>Lines 327-415, \<open>upload\<close> and \<open>relationship\<close>.\<close>

definition relationSchema :: "idFieldTypes \<Rightarrow> relationTo \<Rightarrow> bool \<Rightarrow> bool \<Rightarrow> json" where
  "relationSchema ids rel hasMany isRequired =
     (case rel of
        RelationToMany relations \<Rightarrow>
          (if hasMany then
             JObj [(''type'', withNullableJSONSchemaType (JStr ''array'') isRequired),
                   (''items'', JObj [(''oneOf'',
                      JArr (map (polymorphicBranch ids (JStr ''object'')) relations))])]
           else
             JObj [(''oneOf'',
               JArr (map (polymorphicBranch ids
                            (withNullableJSONSchemaType (JStr ''object'') isRequired)) relations))])
      | RelationToOne relation \<Rightarrow>
          (if hasMany then
             JObj [(''type'', withNullableJSONSchemaType (JStr ''array'') isRequired),
                   (''items'', idOrEntity ids relation)]
           else
             JObj [(''oneOf'',
               JArr [JObj [(''type'', withNullableJSONSchemaType (idTypeOf ids relation) isRequired)],
                     refTo relation])]))"

text \<open>The cases of the \<open>switch\<close> that neither recurse nor throw; every other field leaves
  \<open>fieldSchema\<close> undefined here.\<close>

fun leafFieldSchema :: "idFieldTypes \<Rightarrow> field \<Rightarrow> bool \<Rightarrow> json" where
  "leafFieldSchema ids (FText _ hasMany) isRequired =
     (if hasMany then
        JObj [(''type'', withNullableJSONSchemaType (JStr ''array'') isRequired),
              (''items'', JObj [(''type'', JStr ''string'')])]
      else JObj [(''type'', withNullableJSONSchemaType (JStr ''string'') isRequired)])"
| "leafFieldSchema ids (FTextarea _) isRequired =
     JObj [(''type'', withNullableJSONSchemaType (JStr ''string'') isRequired)]"
| "leafFieldSchema ids (FCode _) isRequired =
     JObj [(''type'', withNullableJSONSchemaType (JStr ''string'') isRequired)]"
| "leafFieldSchema ids (FEmail _) isRequired =
     JObj [(''type'', withNullableJSONSchemaType (JStr ''string'') isRequired)]"
| "leafFieldSchema ids (FDate _) isRequired =
     JObj [(''type'', withNullableJSONSchemaType (JStr ''string'') isRequired)]"
| "leafFieldSchema ids (FNumber _ hasMany) isRequired =
     (if hasMany then
        JObj [(''type'', withNullableJSONSchemaType (JStr ''array'') isRequired),
              (''items'', JObj [(''type'', JStr ''number'')])]
      else JObj [(''type'', withNullableJSONSchemaType (JStr ''number'') isRequired)])"
| "leafFieldSchema ids (FCheckbox _) isRequired =
     JObj [(''type'', withNullableJSONSchemaType (JStr ''boolean'') isRequired)]"
| "leafFieldSchema ids (FJson _ schema) isRequired =
     (case schema of
        Some s \<Rightarrow> if truthy s then s
                  else JObj [(''type'', JArr (map JStr
                         [''object'', ''array'', ''string'', ''number'', ''boolean'', ''null'']))]
      | None \<Rightarrow> JObj [(''type'', JArr (map JStr
                         [''object'', ''array'', ''string'', ''number'', ''boolean'', ''null'']))])"
| "leafFieldSchema ids (FRadio _ options) isRequired =
     JObj [(''type'', withNullableJSONSchemaType (JStr ''string'') isRequired),
           (''enum'', JArr (map JStr (buildOptionEnums options)))]"
| "leafFieldSchema ids (FSelect _ options hasMany) isRequired =
     (if hasMany then
        JObj [(''type'', withNullableJSONSchemaType (JStr ''array'') isRequired),
              (''items'', JObj [(''type'', JStr ''string''),
                                (''enum'', JArr (map JStr (buildOptionEnums options)))])]
      else
        JObj [(''type'', withNullableJSONSchemaType (JStr ''string'') isRequired),
              (''enum'', JArr (map JStr (buildOptionEnums options)))])"
| "leafFieldSchema ids (FPoint _) isRequired =
     JObj [(''type'', withNullableJSONSchemaType (JStr ''array'') isRequired),
           (''items'', JArr [JObj [(''type'', JStr ''number'')], JObj [(''type'', JStr ''number'')]]),
           (''maxItems'', JNum 2), (''minItems'', JNum 2)]"
| "leafFieldSchema ids (FJoin _ collection) isRequired =
     JObj [(''type'', withNullableJSONSchemaType (JStr ''object'') False),
           (''additionalProperties'', JBool False),
           (''properties'', JObj
              [(''docs'', JObj [(''type'', withNullableJSONSchemaType (JStr ''array'') False),
                               (''items'', idOrEntity ids collection)]),
               (''hasNextPage'',
                  JObj [(''type'', withNullableJSONSchemaType (JStr ''boolean'') False)])])]"
| "leafFieldSchema ids (FUpload _ rel hasMany) isRequired = relationSchema ids rel hasMany isRequired"
| "leafFieldSchema ids (FRelationship _ rel hasMany) isRequired =
     relationSchema ids rel hasMany isRequired"
| "leafFieldSchema ids _ isRequired = JUndefined"

subsection \<open>Lines 154-581: \<open>fieldsToJSONSchema\<close>\<close>

text \<open>
  The state of one call is the map \<open>fieldSchemas\<close>, the set \<open>requiredFieldNames\<close> and the
  interface registry, which is the caller's and is shared by all nested calls.
  \<open>fieldsToJSONSchemaFrom\<close> is the \<open>reduce\<close> over the fields from a given state, and
  \<open>switchField\<close> is the \<open>switch\<close> for the kinds that recurse or throw; it yields the
  \<open>fieldSchema\<close> together with the state. \<open>blockSchemas\<close> is the \<open>map\<close> over the blocks and
  \<open>tabSchemas\<close> the \<open>forEach\<close> over the tabs. The \<open>config\<close> argument is only handed on to
  the editor's \<open>outputSchema\<close>, a function the field carries, and is left out.
\<close>

type_synonym schemaState = "(string \<times> json) list \<times> string list \<times> registry"

function fieldsToJSONSchemaFrom :: "idFieldTypes \<Rightarrow> field list \<Rightarrow> schemaState \<Rightarrow> error + schemaState"
  and switchField :: "idFieldTypes \<Rightarrow> field \<Rightarrow> bool \<Rightarrow> schemaState \<Rightarrow> error + (json \<times> schemaState)"
  and blockSchemas :: "idFieldTypes \<Rightarrow> block list \<Rightarrow> registry \<Rightarrow> error + (json list \<times> registry)"
  and tabSchemas :: "idFieldTypes \<Rightarrow> tab list \<Rightarrow> schemaState \<Rightarrow> error + schemaState" where
  "fieldsToJSONSchemaFrom ids flds st =
     (case flds of
        [] \<Rightarrow> Inr st
      | f # rest \<Rightarrow>
          (case st of (fieldSchemas, requiredFieldNames, reg) \<Rightarrow>
             (let isRequired = (fieldAffectsData f \<and> fieldIsRequired f);
                  requiredFieldNames1 =
                    (if isRequired then addName (nameOf f) requiredFieldNames
                     else requiredFieldNames)
              in case switchField ids f isRequired (fieldSchemas, requiredFieldNames1, reg) of
                   Inl e \<Rightarrow> Inl e
                 | Inr (fieldSchema, fieldSchemas2, requiredFieldNames2, reg2) \<Rightarrow>
                     (let fieldSchema2 = foldl (\<lambda>s schema. schema s) fieldSchema
                                           (typescriptSchema (commonOf f))
                      in fieldsToJSONSchemaFrom ids rest
                           (if truthy fieldSchema2 \<and> fieldAffectsData f
                            then AList.update (nameOf f) fieldSchema2 fieldSchemas2
                            else fieldSchemas2,
                            requiredFieldNames2, reg2)))))"
| "switchField ids f isRequired st =
     (case st of (fieldSchemas, requiredFieldNames, reg) \<Rightarrow>
       (case f of
          FRichText c ed \<Rightarrow>
            (case ed of
               None \<Rightarrow> Inl (MissingEditorProp f)
             | Some EditorFunction \<Rightarrow>
                 Inl (Error ''Attempted to access unsanitized rich text editor.'')
             | Some (SanitizedEditor (Some outputSchema)) \<Rightarrow>
                 (case outputSchema ids isRequired reg of
                    (fieldSchema, reg2) \<Rightarrow> Inr (fieldSchema, fieldSchemas, requiredFieldNames, reg2))
             | Some (SanitizedEditor None) \<Rightarrow>
                 Inr (JObj [(''type'', withNullableJSONSchemaType (JStr ''array'') isRequired),
                            (''items'', JObj [(''type'', JStr ''object'')])],
                      fieldSchemas, requiredFieldNames, reg))
        | FBlocks c blocks \<Rightarrow>
            (if blocks = [] then
               Inr (JObj [(''type'', withNullableJSONSchemaType (JStr ''array'') isRequired),
                          (''items'', JObj [])],
                    fieldSchemas, requiredFieldNames, reg)
             else
               (case blockSchemas ids blocks reg of
                  Inl e \<Rightarrow> Inl e
                | Inr (schemas, reg2) \<Rightarrow>
                    Inr (JObj [(''type'', withNullableJSONSchemaType (JStr ''array'') isRequired),
                               (''items'', JObj [(''oneOf'', JArr schemas)])],
                         fieldSchemas, requiredFieldNames, reg2)))
        | FArray c interfaceName subFields \<Rightarrow>
            (case fieldsToJSONSchemaFrom ids subFields ([], [], reg) of
               Inl e \<Rightarrow> Inl e
             | Inr (props, req, reg2) \<Rightarrow>
                 (let fieldSchema =
                        JObj [(''type'', withNullableJSONSchemaType (JStr ''array'') isRequired),
                              (''items'', objectSchema props req)]
                  in if truthyString interfaceName then
                       Inr (refTo (the interfaceName), fieldSchemas, requiredFieldNames,
                            AList.update (the interfaceName) fieldSchema reg2)
                     else Inr (fieldSchema, fieldSchemas, requiredFieldNames, reg2)))
        | FRow c subFields \<Rightarrow>
            (case fieldsToJSONSchemaFrom ids subFields ([], [], reg) of
               Inl e \<Rightarrow> Inl e
             | Inr (props, req, reg2) \<Rightarrow>
                 Inr (JUndefined, setAll props fieldSchemas, addAll req requiredFieldNames, reg2))
        | FCollapsible c subFields \<Rightarrow>
            (case fieldsToJSONSchemaFrom ids subFields ([], [], reg) of
               Inl e \<Rightarrow> Inl e
             | Inr (props, req, reg2) \<Rightarrow>
                 Inr (JUndefined, setAll props fieldSchemas, addAll req requiredFieldNames, reg2))
        | FTabs c tabs \<Rightarrow>
            (case tabSchemas ids tabs st of
               Inl e \<Rightarrow> Inl e
             | Inr st2 \<Rightarrow> Inr (JUndefined, st2))
        | FGroup c interfaceName subFields \<Rightarrow>
            (case fieldsToJSONSchemaFrom ids subFields ([], [], reg) of
               Inl e \<Rightarrow> Inl e
             | Inr (props, req, reg2) \<Rightarrow>
                 (let fieldSchema = objectSchema props req
                  in if truthyString interfaceName then
                       Inr (refTo (the interfaceName), fieldSchemas, requiredFieldNames,
                            AList.update (the interfaceName) fieldSchema reg2)
                     else Inr (fieldSchema, fieldSchemas, requiredFieldNames, reg2)))
        | _ \<Rightarrow> Inr (leafFieldSchema ids f isRequired, st)))"
| "blockSchemas ids blocks reg =
     (case blocks of
        [] \<Rightarrow> Inr ([], reg)
      | b # rest \<Rightarrow>
          (case b of Block blockSlug interfaceName subFields \<Rightarrow>
            (case fieldsToJSONSchemaFrom ids subFields ([], [], reg) of
               Inl e \<Rightarrow> Inl e
             | Inr (props, req, reg2) \<Rightarrow>
                 (let blockSchema =
                        JObj [(''type'', JStr ''object''), (''additionalProperties'', JBool False),
                              (''properties'',
                                 JObj (AList.update ''blockType''
                                         (JObj [(''const'', JStr blockSlug)]) props)),
                              (''required'', JArr (map JStr (''blockType'' # req)))]
                  in case blockSchemas ids rest
                            (if truthyString interfaceName
                             then AList.update (the interfaceName) blockSchema reg2 else reg2) of
                       Inl e \<Rightarrow> Inl e
                     | Inr (schemas, reg3) \<Rightarrow>
                         Inr ((if truthyString interfaceName then refTo (the interfaceName)
                               else blockSchema) # schemas, reg3)))))"
| "tabSchemas ids tabs st =
     (case tabs of
        [] \<Rightarrow> Inr st
      | t # rest \<Rightarrow>
          (case t of Tab tabName subFields \<Rightarrow>
            (case st of (fieldSchemas, requiredFieldNames, reg) \<Rightarrow>
              (case fieldsToJSONSchemaFrom ids subFields ([], [], reg) of
                 Inl e \<Rightarrow> Inl e
               | Inr (props, req, reg2) \<Rightarrow>
                   (case tabName of
                      Some n \<Rightarrow>
                        tabSchemas ids rest
                          (AList.update n (objectSchema props req) fieldSchemas,
                           if someRequired subFields then addName n requiredFieldNames
                           else requiredFieldNames,
                           reg2)
                    | None \<Rightarrow>
                        tabSchemas ids rest
                          (setAll props fieldSchemas, addAll req requiredFieldNames, reg2))))))"
  by pat_completeness auto
termination
  by (relation "measure (\<lambda>x. case x of
         Inl (Inl (ids, flds, st)) \<Rightarrow> 2 * size_list size flds
       | Inl (Inr (ids, f, r, st)) \<Rightarrow> 2 * size f
       | Inr (Inl (ids, blocks, reg)) \<Rightarrow> 2 * size_list size blocks
       | Inr (Inr (ids, tabs, st)) \<Rightarrow> 2 * size_list size tabs)")
     auto

declare fieldsToJSONSchemaFrom.simps [simp del] switchField.simps [simp del]
  blockSchemas.simps [simp del] tabSchemas.simps [simp del]

definition fieldsToJSONSchema ::
  "idFieldTypes \<Rightarrow> field list \<Rightarrow> registry \<Rightarrow> error + schemaState" where
  "fieldsToJSONSchema ids flds interfaceNameDefinitions =
     fieldsToJSONSchemaFrom ids flds ([], [], interfaceNameDefinitions)"

subsection \<open>Lines 584-636: \<open>entityToJSONSchema\<close>\<close>














subsection \<open>Lines 58-137 and 638-794: the small generators\<close>





text \<open>Lines 638-746.\<close>

definition fieldType :: json where
  "fieldType = JObj [(''type'', JStr ''string''), (''required'', JBool False)]"






subsection \<open>Lines 796-940: \<open>generateJobsSchemas\<close>\<close>

record Task =
  taskSlug :: string
  inputSchema :: "field list option"
  outputSchema :: "field list option"












subsection \<open>Lines 945-1026: \<open>configToJSONSchema\<close>\<close>





subsection \<open>The field lists of a config in the order of derivation\<close>






subsection \<open>Predicates on the Field Model\<close>

text \<open>Every rich text field of the tree has a resolved editor object.\<close>

fun editorSanitized :: "field \<Rightarrow> bool"
  and editorsSanitized :: "field list \<Rightarrow> bool"
  and blockEditorsSanitized :: "block list \<Rightarrow> bool"
  and tabEditorsSanitized :: "tab list \<Rightarrow> bool" where
  "editorSanitized f =
     (case f of
        FRichText _ ed \<Rightarrow> (case ed of Some (SanitizedEditor _) \<Rightarrow> True | _ \<Rightarrow> False)
      | FBlocks _ blocks \<Rightarrow> blockEditorsSanitized blocks
      | FArray _ _ subFields \<Rightarrow> editorsSanitized subFields
      | FRow _ subFields \<Rightarrow> editorsSanitized subFields
      | FCollapsible _ subFields \<Rightarrow> editorsSanitized subFields
      | FTabs _ tabs \<Rightarrow> tabEditorsSanitized tabs
      | FGroup _ _ subFields \<Rightarrow> editorsSanitized subFields
      | _ \<Rightarrow> True)"
| "editorsSanitized [] = True"
| "editorsSanitized (f # rest) = (editorSanitized f \<and> editorsSanitized rest)"
| "blockEditorsSanitized [] = True"
| "blockEditorsSanitized (Block _ _ subFields # rest) =
     (editorsSanitized subFields \<and> blockEditorsSanitized rest)"
| "tabEditorsSanitized [] = True"
| "tabEditorsSanitized (Tab _ subFields # rest) =
     (editorsSanitized subFields \<and> tabEditorsSanitized rest)"

declare editorSanitized.simps(1) [simp del]








text \<open>The kinds whose case of the \<open>switch\<close> neither throws nor derives child fields.\<close>

definition isLeaf :: "field \<Rightarrow> bool" where
  "isLeaf f =
     (typeOf f \<notin> set [''richText'', ''blocks'', ''array'', ''row'', ''collapsible'', ''tabs'',
                       ''group''])"

text \<open>The two errors of lines 228-234.\<close>

definition isEditorError :: "error \<Rightarrow> bool" where
  "isEditorError e =
     (case e of
        MissingEditorProp f \<Rightarrow> (case f of FRichText c ed \<Rightarrow> ed = None | _ \<Rightarrow> False)
      | Error m \<Rightarrow> m = ''Attempted to access unsanitized rich text editor.''
      | _ \<Rightarrow> False)"

text \<open>The result of a derivation is an editor error exactly when \<open>ok\<close> is false.\<close>

definition failsOrNot :: "bool \<Rightarrow> error + 'a \<Rightarrow> bool" where
  "failsOrNot ok res =
     (if ok then (\<exists>x. res = Inr x) else (\<exists>e. res = Inl e \<and> isEditorError e))"




subsection \<open>Concrete field models\<close>



text \<open>An array field \<open>items\<close> with \<open>interfaceName: 'Foo'\<close> and one text child.\<close>

definition fooArray :: field where
  "fooArray = FArray (plainCommon ''items'') (Some ''Foo'') [FText (plainCommon ''label'') False]"











text \<open>A rich text field inside a group, with the editor still in function form, and a
  rich text field without an editor.\<close>

definition unsanitizedFields :: "field list" where
  "unsanitizedFields =
     [FText (plainCommon ''title'') False,
      FGroup (plainCommon ''meta'') None [FRichText (plainCommon ''body'') (Some EditorFunction)]]"

definition missingEditorFields :: "field list" where
  "missingEditorFields = [FRichText (plainCommon ''body'') None]"

section \<open>Properties of the query translator\<close>

lemmas demo_defs = demoExt_def demoArgs_def demoPayload_def demoSegment_def plainCommon_def
  demoOperatorMap_def isHex24_def
lemmas bsp_defs = buildSearchParam_def resolvePaths_def sanitizePath_def crossCollection_def
  operatorQuery_def multiIDQuery_def plainQuery_def likeQuery_def filterPath_def joinedPath_def
  validOperator_def validOperators_def isRelationshipOrUpload_def keyOf_def newObjectId_def
  hasNumberIDRelation_def customIDTypeOf_def lookupLoop.simps currentOr_def pushLookup_def fromName_def endsWith_s_def

lemma lookupLoop_three:
  assumes "path p0 \<noteq> []" "path p2 \<noteq> ''id''" "collectionSlug p1 = Some c1" "collectionSlug p2 = Some c2"
  shows "lookupLoop [p0, p1, p2] 0 \<lparr>currentPath = None, pipeline = pl, projection = proj, isID = False\<rparr> =
     Inr \<lparr>currentPath = Some (path p0 @ ''.'' @ path p1 @ ''.'' @ path p2),
          pipeline = pl @ [Lookup (CHR ''_'' # path p0) ''_id'' (fromName c1) (path p0),
                 Lookup (CHR ''_'' # path p0 @ ''.'' @ path p1) ''_id'' (fromName c2) (CHR ''_'' # path p0 @ ''.'' @ path p1)],
          projection = map_option (AList.update (CHR ''_'' # path p0) False) proj, isID = False\<rparr>"
  using assms
  by (cases proj) (simp_all add: lookupLoop.simps currentOr_def pushLookup_def Let_def)

lemma operatorQuery_multi: "length paths \<ge> 2 \<Longrightarrow> \<exists>r. operatorQuery ext payload paths fld pth op v = Inr r"
  by (auto simp: operatorQuery_def multiIDQuery_def Let_def split: qval.splits)

lemma crossCollection_plain:
  assumes "lookupLoop paths 0 \<lparr>currentPath = None, pipeline = pl, projection = proj, isID = False\<rparr> = Inr st"
    and "\<not> isID st"
  shows "crossCollection ext paths pl proj v = Inr (filterPath paths, v, pipeline st, projection st)"
  using assms by (cases v) (simp_all add: crossCollection_def)

text \<open>
  Claim C1, as amended. When the resolved path list has three segments, the first segment's
  path is not empty, \<open>sanitizeQueryValue\<close> returns no raw query, the last segment's path is
  not the literal \<open>id\<close> and the second and third segment carry a collection slug, the call
  returns and leaves exactly two join stages appended to the caller's pipeline, in traversal
  order. The first joins on the first segment's path under the alias \<open>_\<close> followed by that
  path; the second joins on \<open>localField\<close> equal to its own alias, which is the first alias
  extended by \<open>.\<close> and the second segment's path. A projection object gets the first alias
  set to \<open>false\<close>.
\<close>

theorem three_segments_push_two_lookups:
  assumes "resolvePaths ext (argPayload a) (argCollectionSlug a) (argFields a) (argGlobalSlug a)
             (argIncomingPath a) (argLocale a) = Inr ([p0, p1, p2], h)"
    and "path p0 \<noteq> []"
    and "rawQuery (sanitizeQueryValue ext (field p0) h (argOperator a) (path p0) (argVal a)) = None"
    and "path p2 \<noteq> ''id''"
    and "collectionSlug p1 = Some c1" and "collectionSlug p2 = Some c2"
  shows "\<exists>res. buildSearchParam ext a =
           Inr (res,
                argPipeline a @
                  [Lookup (CHR ''_'' # path p0) ''_id'' (fromName c1) (path p0),
                   Lookup (CHR ''_'' # path p0 @ ''.'' @ path p1) ''_id'' (fromName c2)
                     (CHR ''_'' # path p0 @ ''.'' @ path p1)],
                map_option (AList.update (CHR ''_'' # path p0) False) (argProjection a))"
proof -
  let ?san = "sanitizeQueryValue ext (field p0) h (argOperator a) (path p0) (argVal a)"
  obtain r where r: "operatorQuery ext (argPayload a) [p0, p1, p2] (field p0) (filterPath [p0, p1, p2])
     (sanOperator ?san) (sanVal ?san) = Inr r"
    using operatorQuery_multi[of "[p0, p1, p2]"] by fastforce
  have cc: "crossCollection ext [p0, p1, p2] (argPipeline a) (argProjection a) (sanVal ?san) =
    Inr (filterPath [p0, p1, p2], sanVal ?san,
      argPipeline a @
                  [Lookup (CHR ''_'' # path p0) ''_id'' (fromName c1) (path p0),
                   Lookup (CHR ''_'' # path p0 @ ''.'' @ path p1) ''_id'' (fromName c2)
                     (CHR ''_'' # path p0 @ ''.'' @ path p1)],
                map_option (AList.update (CHR ''_'' # path p0) False) (argProjection a))"
    using crossCollection_plain[OF lookupLoop_three[OF assms(2,4,5,6)]] by simp
  show ?thesis
    using assms(1,2,3) r cc
    by (simp add: buildSearchParam_def Let_def)
qed

text \<open>Claim C1: the amended statement at \<open>author.company.city\<close>.\<close>

theorem three_segments_push_two_lookups_witness:
  "resolvePaths (demoExt authorCompanyCity) (argPayload (demoArgs ''author.company.city'' ''equals'' (QStr ''Paris'')))
      (argCollectionSlug (demoArgs ''author.company.city'' ''equals'' (QStr ''Paris'')))
      (argFields (demoArgs ''author.company.city'' ''equals'' (QStr ''Paris'')))
      (argGlobalSlug (demoArgs ''author.company.city'' ''equals'' (QStr ''Paris'')))
      (argIncomingPath (demoArgs ''author.company.city'' ''equals'' (QStr ''Paris'')))
      (argLocale (demoArgs ''author.company.city'' ''equals'' (QStr ''Paris''))) = Inr (authorCompanyCity, False)
   \<and> (\<exists>res. buildSearchParam (demoExt authorCompanyCity) (demoArgs ''author.company.city'' ''equals'' (QStr ''Paris'')) =
         Inr (res, [Lookup ''_author'' ''_id'' ''users'' ''author'',
                    Lookup ''_author.company'' ''_id'' ''companies'' ''_author.company''], None))"
proof -
  let ?a = "demoArgs ''author.company.city'' ''equals'' (QStr ''Paris'')"
  let ?p0 = "demoSegment ''posts'' (FRelationship (plainCommon ''author'') (RelationToOne ''users'') False) ''author''"
  let ?p1 = "demoSegment ''users'' (FRelationship (plainCommon ''company'') (RelationToOne ''companies'') False) ''company''"
  let ?p2 = "demoSegment ''companies'' (FText (plainCommon ''city'') False) ''city''"
  have h1: "resolvePaths (demoExt authorCompanyCity) (argPayload ?a) (argCollectionSlug ?a) (argFields ?a)
      (argGlobalSlug ?a) (argIncomingPath ?a) (argLocale ?a) = Inr ([?p0, ?p1, ?p2], False)"
    by (simp add: resolvePaths_def sanitizePath_def demoExt_def demoArgs_def authorCompanyCity_def Let_def)
  have h2: "path ?p0 \<noteq> []" by (simp add: demoSegment_def)
  have h3: "rawQuery (sanitizeQueryValue (demoExt authorCompanyCity) (field ?p0) False (argOperator ?a) (path ?p0) (argVal ?a)) = None"
    by (simp add: demoExt_def)
  have h4: "path ?p2 \<noteq> ''id''" by (simp add: demoSegment_def)
  have h5: "collectionSlug ?p1 = Some ''users''" by (simp add: demoSegment_def)
  have h6: "collectionSlug ?p2 = Some ''companies''" by (simp add: demoSegment_def)
  from three_segments_push_two_lookups[OF h1 h2 h3 h4 h5 h6] h1 show ?thesis
    by (simp add: fromName_def endsWith_s_def demoSegment_def demoArgs_def authorCompanyCity_def)
qed

text \<open>
  Claim C1 as stated fails for \<open>author.company.id\<close>: the list has three segments, the loop
  breaks at index 1 before any stage is pushed, and the pipeline stays empty.
\<close>

theorem id_terminated_path_pushes_no_lookup:
  "length authorCompanyId = 3 \<and>
   buildSearchParam (demoExt authorCompanyId)
      (demoArgs ''author.company.id'' ''equals'' (QStr ''0123456789abcdef01234567'')) =
     Inr (Some \<lparr>spPath = Some ''_author.id'',
                spValue = QObj [(''$eq'', ObjectId ''0123456789abcdef01234567'')]\<rparr>, [], None)"
  by (simp add: bsp_defs demo_defs authorCompanyId_def Let_def)

lemma lookupLoop_id_hop:
  assumes "path p1 = ''id''"
  shows "lookupLoop [p0, p1] 0 \<lparr>currentPath = None, pipeline = pl, projection = proj, isID = False\<rparr> =
     Inr \<lparr>currentPath = Some (path p0), pipeline = pl, projection = proj, isID = True\<rparr>"
  using assms by (simp add: lookupLoop.simps currentOr_def Let_def)


lemma crossCollection_id_hop:
  assumes "path p1 = ''id''"
  shows "crossCollection ext [p0, p1] pl proj v =
     (case v of
        QStr s \<Rightarrow> (if objectIdAccepts ext s then Inr (path p0, ObjectId s, pl, proj)
                   else Inl (Error ''Argument passed in must be a single String of 12 bytes or a string of 24 hex characters''))
      | _ \<Rightarrow> Inr (path p0, v, pl, proj))"
  using assms
  by (cases v) (simp_all add: crossCollection_def lookupLoop_id_hop newObjectId_def filterPath_def)

lemma operatorQuery_two_segments:
  assumes "op \<in> set validOperators" and "\<forall>s. v \<noteq> QStr s"
  shows "operatorQuery ext payload [p0, p1] fld pth (Some op) v =
      Inr (Some \<lparr>spPath = Some pth,
                 spValue = (case operatorMap ext op of
                              None \<Rightarrow> v
                            | Some k \<Rightarrow> if k = [] then v else QObj [(k, v)])\<rparr>)"
proof -
  have ne: "op \<noteq> []" using assms(1) by (auto simp: validOperators_def)
  show ?thesis
    using assms ne
    by (cases v)
       (simp_all add: operatorQuery_def validOperator_def multiIDQuery_def plainQuery_def keyOf_def
          split: option.splits)
qed

text \<open>
  Claim C2, as amended. When the resolved path list has two segments and the second one's
  path is the literal \<open>id\<close>, no call that returns has pushed a join stage: pipeline and
  projection come back unchanged. When moreover the first path is not empty,
  \<open>sanitizeQueryValue\<close> returns no raw query and a valid operator, and the value is either not
  a string or a string the ObjectId constructor accepts, the filter is put on the first
  segment's own path, with a string value replaced by the ObjectId built from it and every
  other value left as it is.
\<close>

theorem relationship_id_filters_stored_path:
  assumes "resolvePaths ext (argPayload a) (argCollectionSlug a) (argFields a) (argGlobalSlug a)
             (argIncomingPath a) (argLocale a) = Inr ([p0, p1], h)"
    and "path p1 = ''id''"
  shows "(\<forall>res pl proj. buildSearchParam ext a = Inr (res, pl, proj) \<longrightarrow>
            pl = argPipeline a \<and> proj = argProjection a)
       \<and> (path p0 \<noteq> [] \<and>
          sanitizeQueryValue ext (field p0) h (argOperator a) (path p0) (argVal a) =
            \<lparr>sanOperator = Some op, rawQuery = None, sanVal = v\<rparr> \<and>
          op \<in> set validOperators \<and>
          (case v of QStr s \<Rightarrow> objectIdAccepts ext s | _ \<Rightarrow> True) \<longrightarrow>
          buildSearchParam ext a =
            Inr (Some \<lparr>spPath = Some (path p0),
                       spValue =
                         (let coerced = (case v of QStr s \<Rightarrow> ObjectId s | _ \<Rightarrow> v)
                          in case operatorMap ext op of
                               None \<Rightarrow> coerced
                             | Some k \<Rightarrow> if k = [] then coerced else QObj [(k, coerced)])\<rparr>,
                 argPipeline a, argProjection a))"
proof (rule conjI; intro allI impI)
  fix res pl proj
  assume ret: "buildSearchParam ext a = Inr (res, pl, proj)"
  let ?san = "sanitizeQueryValue ext (field p0) h (argOperator a) (path p0) (argVal a)"
  show "pl = argPipeline a \<and> proj = argProjection a"
  proof (cases "path p0 = [] \<or> rawQuery ?san \<noteq> None")
    case True
    with ret assms(1) show ?thesis
      by (auto simp: buildSearchParam_def Let_def split: if_splits option.splits sum.splits)
  next
    case False
    with ret assms(1) obtain pth v' where
      "crossCollection ext [p0, p1] (argPipeline a) (argProjection a) (sanVal ?san) = Inr (pth, v', pl, proj)"
      by (auto simp: buildSearchParam_def Let_def split: if_splits option.splits sum.splits)
    then show ?thesis
      by (auto simp: crossCollection_id_hop[OF assms(2)] split: qval.splits if_splits)
  qed
next
  assume hyp: "path p0 \<noteq> [] \<and>
          sanitizeQueryValue ext (field p0) h (argOperator a) (path p0) (argVal a) =
            \<lparr>sanOperator = Some op, rawQuery = None, sanVal = v\<rparr> \<and>
          op \<in> set validOperators \<and>
          (case v of QStr s \<Rightarrow> objectIdAccepts ext s | _ \<Rightarrow> True)"
  define coerced where "coerced = (case v of QStr s \<Rightarrow> ObjectId s | _ \<Rightarrow> v)"
  have cc: "crossCollection ext [p0, p1] (argPipeline a) (argProjection a) v =
      Inr (path p0, coerced, argPipeline a, argProjection a)"
    using hyp by (cases v) (simp_all add: crossCollection_id_hop[OF assms(2)] coerced_def)
  have ns: "\<forall>s. coerced \<noteq> QStr s" by (cases v) (simp_all add: coerced_def)
  have oq: "operatorQuery ext (argPayload a) [p0, p1] (field p0) (path p0) (Some op) coerced =
      Inr (Some \<lparr>spPath = Some (path p0),
                 spValue = (case operatorMap ext op of
                              None \<Rightarrow> coerced
                            | Some k \<Rightarrow> if k = [] then coerced else QObj [(k, coerced)])\<rparr>)"
    by (rule operatorQuery_two_segments) (use hyp ns in auto)
  show "buildSearchParam ext a =
            Inr (Some \<lparr>spPath = Some (path p0),
                       spValue =
                         (let coerced = (case v of QStr s \<Rightarrow> ObjectId s | _ \<Rightarrow> v)
                          in case operatorMap ext op of
                               None \<Rightarrow> coerced
                             | Some k \<Rightarrow> if k = [] then coerced else QObj [(k, coerced)])\<rparr>,
                 argPipeline a, argProjection a)"
    using assms(1) hyp cc[unfolded coerced_def] oq[unfolded coerced_def]
    by (simp add: buildSearchParam_def Let_def)
qed

text \<open>Claim C2, as amended, at \<open>author.id\<close> with a string of 24 hexadecimal digits and with
  a boolean.\<close>

theorem relationship_id_filters_stored_path_witness:
  "buildSearchParam (demoExt authorId) (demoArgs ''author.id'' ''equals'' (QStr ''0123456789abcdef01234567'')) =
     Inr (Some \<lparr>spPath = Some ''author'', spValue = QObj [(''$eq'', ObjectId ''0123456789abcdef01234567'')]\<rparr>,
          [], None)
   \<and> buildSearchParam (demoExt authorId) (demoArgs ''author.id'' ''exists'' (QBool True)) =
     Inr (Some \<lparr>spPath = Some ''author'', spValue = QObj [(''$exists'', QBool True)]\<rparr>, [], None)"
proof -
  let ?a = "demoArgs ''author.id'' ''equals'' (QStr ''0123456789abcdef01234567'')"
  let ?b = "demoArgs ''author.id'' ''exists'' (QBool True)"
  let ?p0 = "demoSegment ''posts'' (FRelationship (plainCommon ''author'') (RelationToOne ''users'') False) ''author''"
  let ?p1 = "demoSegment ''users'' (idField IdText) ''id''"
  have a1: "resolvePaths (demoExt authorId) (argPayload ?a) (argCollectionSlug ?a) (argFields ?a)
      (argGlobalSlug ?a) (argIncomingPath ?a) (argLocale ?a) = Inr ([?p0, ?p1], False)"
    by (simp add: resolvePaths_def sanitizePath_def demoExt_def demoArgs_def authorId_def Let_def)
  have b1: "resolvePaths (demoExt authorId) (argPayload ?b) (argCollectionSlug ?b) (argFields ?b)
      (argGlobalSlug ?b) (argIncomingPath ?b) (argLocale ?b) = Inr ([?p0, ?p1], False)"
    by (simp add: resolvePaths_def sanitizePath_def demoExt_def demoArgs_def authorId_def Let_def)
  have h2: "path ?p1 = ''id''" by (simp add: demoSegment_def)
  have a3: "path ?p0 \<noteq> [] \<and>
     sanitizeQueryValue (demoExt authorId) (field ?p0) False (argOperator ?a) (path ?p0) (argVal ?a) =
       \<lparr>sanOperator = Some ''equals'', rawQuery = None, sanVal = QStr ''0123456789abcdef01234567''\<rparr> \<and>
     ''equals'' \<in> set validOperators \<and>
     (case QStr ''0123456789abcdef01234567'' of QStr s \<Rightarrow> objectIdAccepts (demoExt authorId) s | _ \<Rightarrow> True)"
    by (simp add: demoExt_def demoArgs_def demoSegment_def validOperators_def isHex24_def)
  have b3: "path ?p0 \<noteq> [] \<and>
     sanitizeQueryValue (demoExt authorId) (field ?p0) False (argOperator ?b) (path ?p0) (argVal ?b) =
       \<lparr>sanOperator = Some ''exists'', rawQuery = None, sanVal = QBool True\<rparr> \<and>
     ''exists'' \<in> set validOperators \<and>
     (case QBool True of QStr s \<Rightarrow> objectIdAccepts (demoExt authorId) s | _ \<Rightarrow> True)"
    by (simp add: demoExt_def demoArgs_def demoSegment_def validOperators_def)
  from relationship_id_filters_stored_path[OF a1 h2, of "''equals''" "QStr ''0123456789abcdef01234567''"] a3
       relationship_id_filters_stored_path[OF b1 h2, of "''exists''" "QBool True"] b3
  show ?thesis
    by (simp add: demoExt_def demoOperatorMap_def demoSegment_def demoArgs_def)
qed

text \<open>
  Claim C2 as stated fails for \<open>author.id\<close> compared to the string \<open>abc\<close>: line 168 hands the
  string to the ObjectId constructor, which refuses it, and the call raises instead of
  returning a filter.
\<close>

theorem relationship_id_refused_string_raises:
  "buildSearchParam (demoExt authorId) (demoArgs ''author.id'' ''equals'' (QStr ''abc'')) =
     Inl (Error ''Argument passed in must be a single String of 12 bytes or a string of 24 hex characters'')"
  by (simp add: bsp_defs demo_defs authorId_def Let_def)




lemma endsWith_s_last: "endsWith_s cs = (cs \<noteq> [] \<and> last cs = CHR ''s'')"
  by (cases cs rule: rev_cases) (simp_all add: endsWith_s_def)

lemma lookupLoop_pushes_from:
  "lookupLoop paths i st = Inr st' \<Longrightarrow>
   \<exists>new. pipeline st' = pipeline st @ new \<and> length new \<le> length paths - max i 1 \<and>
     (\<forall>j<length new. \<exists>as lf cs. collectionSlug (paths ! (max i 1 + j)) = Some cs \<and>
        new ! j = Lookup as ''_id'' (if cs \<noteq> [] \<and> last cs = CHR ''s'' then cs else cs @ ''s'') lf)"
proof (induction paths i st arbitrary: st' rule: lookupLoop.induct)
  case (1 paths i st)
  show ?case
  proof (cases "i < length paths")
    case False
    with "1.prems" show ?thesis by (simp add: lookupLoop.simps)
  next
    case True
    note lt = this
    define cur where "cur = currentOr (currentPath st) (path (paths ! i))"
    show ?thesis
    proof (cases "i + 2 = length paths \<and> path (paths ! (i + 1)) = ''id''")
      case True
      with lt "1.prems" show ?thesis
        by (subst (asm) lookupLoop.simps) (auto simp: Let_def)
    next
      case nb: False
      show ?thesis
      proof (cases "i = 0")
        case True
        with lt nb "1.prems" have "lookupLoop paths (i + 1) (st\<lparr>currentPath := Some cur\<rparr>) = Inr st'"
          by (subst (asm) lookupLoop.simps) (auto simp: Let_def cur_def)
        from "1.IH"(1)[OF lt refl cur_def nb True this] True show ?thesis
          by simp
      next
        case i0: False
        show ?thesis
        proof (cases "collectionSlug (paths ! i)")
          case None
          with lt nb i0 "1.prems" show ?thesis
            by (subst (asm) lookupLoop.simps) (auto simp: Let_def)
        next
          case (Some cs)
          from lt nb i0 Some "1.prems"
          have rec: "lookupLoop paths (i + 1) (pushLookup i cur cs (path (paths ! i)) st) = Inr st'"
            by (subst (asm) lookupLoop.simps) (auto simp: Let_def cur_def)
          from "1.IH"(2)[OF lt refl cur_def nb i0 Some rec]
          obtain new where new: "pipeline st' = pipeline (pushLookup i cur cs (path (paths ! i)) st) @ new"
            "length new \<le> length paths - max (i + 1) 1"
            "\<forall>j<length new. \<exists>as lf cs. collectionSlug (paths ! (max (i + 1) 1 + j)) = Some cs \<and>
               new ! j = Lookup as ''_id'' (if cs \<noteq> [] \<and> last cs = CHR ''s'' then cs else cs @ ''s'') lf"
            by auto
          let ?s = "Lookup (CHR ''_'' # cur) ''_id'' (fromName cs) (if i = 1 then cur else CHR ''_'' # cur)"
          have pl: "pipeline st' = pipeline st @ (?s # new)"
            using new(1) by (simp add: pushLookup_def)
          have len: "length (?s # new) \<le> length paths - max i 1"
            using new(2) lt i0 by simp
          have each: "\<exists>as lf cs. collectionSlug (paths ! (max i 1 + j)) = Some cs \<and>
               (?s # new) ! j = Lookup as ''_id'' (if cs \<noteq> [] \<and> last cs = CHR ''s'' then cs else cs @ ''s'') lf"
            if "j < length (?s # new)" for j
          proof (cases j)
            case 0
            with i0 Some show ?thesis by (simp add: fromName_def endsWith_s_last)
          next
            case (Suc k)
            with that have "k < length new" by simp
            with new(3) obtain as lf cs' where
              "collectionSlug (paths ! (max (i + 1) 1 + k)) = Some cs'"
              "new ! k = Lookup as ''_id'' (if cs' \<noteq> [] \<and> last cs' = CHR ''s'' then cs' else cs' @ ''s'') lf"
              by blast
            with Suc i0 show ?thesis by simp
          qed
          from pl len each show ?thesis by blast
        qed
      qed
    qed
  qed
qed

lemma crossCollection_pushes_from:
  assumes "crossCollection ext paths pl proj v = Inr (pth, v', pl', proj')"
  shows "\<exists>new. pl' = pl @ new \<and> length new \<le> length paths - 1 \<and>
     (\<forall>j<length new. \<exists>as lf cs. collectionSlug (paths ! (j + 1)) = Some cs \<and>
        new ! j = Lookup as ''_id'' (if cs \<noteq> [] \<and> last cs = CHR ''s'' then cs else cs @ ''s'') lf)"
proof -
  from assms obtain st where
    st: "lookupLoop paths 0 \<lparr>currentPath = None, pipeline = pl, projection = proj, isID = False\<rparr> = Inr st"
    and pl': "pl' = pipeline st"
    by (auto simp: crossCollection_def split: sum.splits qval.splits if_splits)
  from lookupLoop_pushes_from[OF st] pl' show ?thesis by (simp add: add.commute)
qed

text \<open>
  Claim C10. The stages a returning call appends to the pipeline are join stages, at most
  one per segment after the first, in the order of the segments: the stage at position \<open>j\<close>
  belongs to the segment at index \<open>j + 1\<close> of the resolved path list, its \<open>foreignField\<close> is
  \<open>_id\<close>, and its \<open>from\<close> is that segment's collection slug when the slug ends in the
  character \<open>s\<close>, and the slug followed by \<open>s\<close> otherwise. No other rule is applied.
\<close>

theorem lookup_from_appends_s:
  assumes "resolvePaths ext (argPayload a) (argCollectionSlug a) (argFields a) (argGlobalSlug a)
             (argIncomingPath a) (argLocale a) = Inr (paths, h)"
    and "buildSearchParam ext a = Inr (res, pl, proj)"
  shows "\<exists>new. pl = argPipeline a @ new \<and> length new \<le> length paths - 1 \<and>
     (\<forall>j<length new. \<exists>as lf cs. collectionSlug (paths ! (j + 1)) = Some cs \<and>
        new ! j = Lookup as ''_id'' (if cs \<noteq> [] \<and> last cs = CHR ''s'' then cs else cs @ ''s'') lf)"
proof (cases paths)
  case Nil
  with assms show ?thesis by (simp add: buildSearchParam_def)
next
  case (Cons p0 ps)
  let ?san = "sanitizeQueryValue ext (field p0) h (argOperator a) (path p0) (argVal a)"
  show ?thesis
  proof (cases "path p0 = [] \<or> rawQuery ?san \<noteq> None \<or> ps = []")
    case True
    with assms Cons have "pl = argPipeline a"
      by (auto simp: buildSearchParam_def Let_def split: if_splits option.splits sum.splits)
    then show ?thesis by simp
  next
    case False
    with assms Cons obtain pth v where
      "crossCollection ext paths (argPipeline a) (argProjection a) (sanVal ?san) = Inr (pth, v, pl, proj)"
      by (auto simp: buildSearchParam_def Let_def split: if_splits option.splits sum.splits)
    from crossCollection_pushes_from[OF this] show ?thesis .
  qed
qed

text \<open>Claim C10 at \<open>category.label\<close>, where the stage names the collection \<open>categorys\<close>, and
  at \<open>author.name\<close>, where the slug \<open>users\<close> ends in \<open>s\<close> and is kept.\<close>

theorem lookup_from_appends_s_witness:
  "buildSearchParam (demoExt categoryLabel) (demoArgs ''category.label'' ''equals'' (QStr ''News'')) =
     Inr (Some \<lparr>spPath = Some ''_category.label'', spValue = QObj [(''$eq'', QStr ''News'')]\<rparr>,
          [Lookup ''_category'' ''_id'' ''categorys'' ''category''], None)
   \<and> buildSearchParam (demoExt authorName) (demoArgs ''author.name'' ''equals'' (QStr ''Ann'')) =
     Inr (Some \<lparr>spPath = Some ''_author.name'', spValue = QObj [(''$eq'', QStr ''Ann'')]\<rparr>,
          [Lookup ''_author'' ''_id'' ''users'' ''author''], None)
   \<and> (\<exists>new. [Lookup ''_category'' ''_id'' ''categorys'' ''category''] = [] @ new \<and>
          length new \<le> length categoryLabel - 1 \<and>
          (\<forall>j<length new. \<exists>as lf cs. collectionSlug (categoryLabel ! (j + 1)) = Some cs \<and>
             new ! j = Lookup as ''_id'' (if cs \<noteq> [] \<and> last cs = CHR ''s'' then cs else cs @ ''s'') lf))
   \<and> (\<exists>new. [Lookup ''_author'' ''_id'' ''users'' ''author''] = [] @ new \<and>
          length new \<le> length authorName - 1 \<and>
          (\<forall>j<length new. \<exists>as lf cs. collectionSlug (authorName ! (j + 1)) = Some cs \<and>
             new ! j = Lookup as ''_id'' (if cs \<noteq> [] \<and> last cs = CHR ''s'' then cs else cs @ ''s'') lf))"
proof -
  let ?a = "demoArgs ''category.label'' ''equals'' (QStr ''News'')"
  let ?b = "demoArgs ''author.name'' ''equals'' (QStr ''Ann'')"
  have a1: "resolvePaths (demoExt categoryLabel) (argPayload ?a) (argCollectionSlug ?a) (argFields ?a)
      (argGlobalSlug ?a) (argIncomingPath ?a) (argLocale ?a) = Inr (categoryLabel, False)"
    by (simp add: resolvePaths_def sanitizePath_def demoExt_def demoArgs_def Let_def)
  have a2: "buildSearchParam (demoExt categoryLabel) ?a =
     Inr (Some \<lparr>spPath = Some ''_category.label'', spValue = QObj [(''$eq'', QStr ''News'')]\<rparr>,
          [Lookup ''_category'' ''_id'' ''categorys'' ''category''], None)"
    by (simp add: bsp_defs demo_defs categoryLabel_def Let_def)
  have b1: "resolvePaths (demoExt authorName) (argPayload ?b) (argCollectionSlug ?b) (argFields ?b)
      (argGlobalSlug ?b) (argIncomingPath ?b) (argLocale ?b) = Inr (authorName, False)"
    by (simp add: resolvePaths_def sanitizePath_def demoExt_def demoArgs_def Let_def)
  have b2: "buildSearchParam (demoExt authorName) ?b =
     Inr (Some \<lparr>spPath = Some ''_author.name'', spValue = QObj [(''$eq'', QStr ''Ann'')]\<rparr>,
          [Lookup ''_author'' ''_id'' ''users'' ''author''], None)"
    by (simp add: bsp_defs demo_defs authorName_def Let_def)
  from lookup_from_appends_s[OF a1 a2] lookup_from_appends_s[OF b1 b2] a2 b2
  show ?thesis by (simp add: demoArgs_def)
qed

lemma lookupLoop_returns:
  "list_all (\<lambda>p. collectionSlug p \<noteq> None) (tl paths) \<Longrightarrow> path (last paths) \<noteq> ''id'' \<Longrightarrow>
   \<not> isID st \<Longrightarrow> \<exists>st'. lookupLoop paths i st = Inr st' \<and> \<not> isID st'"
proof (induction paths i st rule: lookupLoop.induct)
  case (1 paths i st)
  show ?case
  proof (cases "i < length paths")
    case False
    with "1.prems" show ?thesis by (simp add: lookupLoop.simps)
  next
    case lt: True
    define cur where "cur = currentOr (currentPath st) (path (paths ! i))"
    have nb: "\<not> (i + 2 = length paths \<and> path (paths ! (i + 1)) = ''id'')"
    proof
      assume a: "i + 2 = length paths \<and> path (paths ! (i + 1)) = ''id''"
      then have "paths \<noteq> []" "length paths - 1 = i + 1" by auto
      then have "last paths = paths ! (i + 1)" by (simp add: last_conv_nth)
      with a "1.prems"(2) show False by simp
    qed
    show ?thesis
    proof (cases "i = 0")
      case True
      from "1.IH"(1)[OF lt refl cur_def nb True "1.prems"(1,2)] "1.prems"(3)
      obtain st' where "lookupLoop paths (i + 1) (st\<lparr>currentPath := Some cur\<rparr>) = Inr st'" "\<not> isID st'"
        by auto
      with lt nb True show ?thesis
        by (subst lookupLoop.simps) (auto simp: Let_def cur_def)
    next
      case i0: False
      from lt i0 have "paths ! i \<in> set (tl paths)"
        by (cases paths; cases i) auto
      with "1.prems"(1) obtain cs where cs: "collectionSlug (paths ! i) = Some cs"
        by (auto simp: list_all_iff)
      have "\<not> isID (pushLookup i cur cs (path (paths ! i)) st)"
        using "1.prems"(3) by (simp add: pushLookup_def)
      from "1.IH"(2)[OF lt refl cur_def nb i0 cs "1.prems"(1,2) this]
      obtain st' where "lookupLoop paths (i + 1) (pushLookup i cur cs (path (paths ! i)) st) = Inr st'" "\<not> isID st'"
        by auto
      with lt nb i0 cs show ?thesis
        by (subst lookupLoop.simps) (auto simp: Let_def cur_def)
    qed
  qed
qed

lemma like_reaches_likeQuery:
  assumes "resolvePaths ext (argPayload a) (argCollectionSlug a) (argFields a) (argGlobalSlug a)
             (argIncomingPath a) (argLocale a) = Inr (p0 # ps, h)"
    and "path p0 \<noteq> []"
    and "sanitizeQueryValue ext (field p0) h (argOperator a) (path p0) (argVal a) =
           \<lparr>sanOperator = Some ''like'', rawQuery = None, sanVal = QStr s\<rparr>"
    and "ps = [] \<longrightarrow> \<not> isRelationshipOrUpload (field p0)"
    and "ps \<noteq> [] \<longrightarrow> path (last ps) \<noteq> ''id''"
    and "list_all (\<lambda>p. collectionSlug p \<noteq> None) ps"
  shows "\<exists>pl proj. buildSearchParam ext a =
           Inr (Some \<lparr>spPath = None,
                      spValue = QObj [(''$and'',
                        QArr (map (\<lambda>word. QObj [(if ps = [] then path p0 else filterPath (p0 # ps),
                                 QObj [(''$options'', QStr ''i''), (''$regex'', QStr (escapeRegex word))])])
                               (split_space s)))]\<rparr>, pl, proj)"
proof -
  have vo: "validOperator (Some ''like'')" by (simp add: validOperator_def validOperators_def)
  show ?thesis
  proof (cases ps)
    case Nil
    with assms vo show ?thesis
      by (simp add: buildSearchParam_def operatorQuery_def multiIDQuery_def likeQuery_def Let_def)
  next
    case (Cons p1 ps')
    with assms(5) have "path (last (p0 # ps)) \<noteq> ''id''" by simp
    moreover have "list_all (\<lambda>p. collectionSlug p \<noteq> None) (tl (p0 # ps))"
      using assms(6) by simp
    ultimately have "\<exists>st'. lookupLoop (p0 # ps) 0
        \<lparr>currentPath = None, pipeline = argPipeline a, projection = argProjection a, isID = False\<rparr> = Inr st'
        \<and> \<not> isID st'"
      by (intro lookupLoop_returns) simp_all
    then obtain st where st: "lookupLoop (p0 # ps) 0
        \<lparr>currentPath = None, pipeline = argPipeline a, projection = argProjection a, isID = False\<rparr> = Inr st"
      "\<not> isID st" by auto
    have cc: "crossCollection ext (p0 # ps) (argPipeline a) (argProjection a) (QStr s) =
       Inr (filterPath (p0 # ps), QStr s, pipeline st, projection st)"
      using st by (simp add: crossCollection_def)
    have oq: "operatorQuery ext (argPayload a) (p0 # ps) (field p0) (filterPath (p0 # ps)) (Some ''like'') (QStr s)
       = Inr (Some (likeQuery (filterPath (p0 # ps)) s))"
      using vo Cons by (simp add: operatorQuery_def multiIDQuery_def Let_def)
    show ?thesis
      using assms(1,2,3) Cons cc oq
      by (simp add: buildSearchParam_def likeQuery_def Let_def)
  qed
qed

lemma split_space_nonempty: "split_space s \<noteq> []"
  by (induction s) (auto split: list.splits)

lemma split_space_no_space: "w \<in> set (split_space s) \<Longrightarrow> CHR '' '' \<notin> set w"
  by (induction s arbitrary: w) (auto split: list.splits if_splits)

lemma split_space_joins: "concat (map (\<lambda>w. w @ '' '') (split_space s)) = s @ '' ''"
  by (induction s) (auto split: list.splits simp: split_space_nonempty)

text \<open>
  Claim C5, as amended. For the operator \<open>like\<close> and a string value, on a path that does not
  end in an \<open>id\<close> hop and is not a single relationship or upload field, the result is a
  conjunction \<open>$and\<close> with one fragment per piece of the value cut at every single space
  character: the pieces contain no space and, each followed by a space, make up the value
  followed by a space. The fragment of a piece has \<open>$options\<close> \<open>i\<close> and as \<open>$regex\<close> the piece
  with a backslash before each of its characters \<open>\ ^ $ * + ? . ( ) | [ ] { }\<close>.
\<close>

theorem like_splits_at_single_spaces:
  assumes "resolvePaths ext (argPayload a) (argCollectionSlug a) (argFields a) (argGlobalSlug a)
             (argIncomingPath a) (argLocale a) = Inr (p0 # ps, h)"
    and "path p0 \<noteq> []"
    and "sanitizeQueryValue ext (field p0) h (argOperator a) (path p0) (argVal a) =
           \<lparr>sanOperator = Some ''like'', rawQuery = None, sanVal = QStr s\<rparr>"
    and "ps = [] \<longrightarrow> \<not> isRelationshipOrUpload (field p0)"
    and "ps \<noteq> [] \<longrightarrow> path (last ps) \<noteq> ''id''"
    and "list_all (\<lambda>p. collectionSlug p \<noteq> None) ps"
  shows "(\<exists>pl proj.
           buildSearchParam ext a =
             Inr (Some \<lparr>spPath = None,
                        spValue = QObj [(''$and'',
                          QArr (map (\<lambda>word.
                                  QObj [(if ps = [] then path p0 else filterPath (p0 # ps),
                                    QObj [(''$options'', QStr ''i''),
                                          (''$regex'', QStr (concat (map (\<lambda>c.
                                              if c \<in> set (CHR 0x5C # ''^$*+?.()|[]{}'')
                                              then [CHR 0x5C, c] else [c]) word)))])])
                                (split_space s)))]\<rparr>, pl, proj))
         \<and> concat (map (\<lambda>w. w @ '' '') (split_space s)) = s @ '' ''
         \<and> list_all (\<lambda>w. CHR '' '' \<notin> set w) (split_space s)"
proof -
  have esc: "escapeRegex word = concat (map (\<lambda>c.
       if c \<in> set (CHR 0x5C # ''^$*+?.()|[]{}'') then [CHR 0x5C, c] else [c]) word)" for word
    by (simp only: escapeRegex_def regexMetaChars_def)
  have pieces: "concat (map (\<lambda>w. w @ '' '') (split_space s)) = s @ '' ''"
      "list_all (\<lambda>w. CHR '' '' \<notin> set w) (split_space s)"
    by (simp_all only: split_space_joins) (simp add: list_all_iff split_space_no_space)
  from like_reaches_likeQuery[OF assms] obtain pl proj where
    "buildSearchParam ext a =
           Inr (Some \<lparr>spPath = None,
                      spValue = QObj [(''$and'',
                        QArr (map (\<lambda>word. QObj [(if ps = [] then path p0 else filterPath (p0 # ps),
                                 QObj [(''$options'', QStr ''i''), (''$regex'', QStr (escapeRegex word))])])
                               (split_space s)))]\<rparr>, pl, proj)"
    by blast
  then show ?thesis
    unfolding esc using pieces by blast
qed

text \<open>Claim C5, as amended: \<open>"red fox"\<close> gives exactly two fragments, and \<open>"a.b (c)"\<close> gives
  the patterns \<open>a\.b\<close> and \<open>\(c\)\<close>.\<close>

theorem like_splits_at_single_spaces_witness:
  "(\<exists>pl proj. buildSearchParam (demoExt titleOnly) (demoArgs ''title'' ''like'' (QStr ''red fox'')) =
     Inr (Some \<lparr>spPath = None,
                spValue = QObj [(''$and'',
                  QArr [QObj [(''title'', QObj [(''$options'', QStr ''i''), (''$regex'', QStr ''red'')])],
                        QObj [(''title'', QObj [(''$options'', QStr ''i''), (''$regex'', QStr ''fox'')])]])]\<rparr>,
          pl, proj))
   \<and> (\<exists>pl proj. buildSearchParam (demoExt titleOnly) (demoArgs ''title'' ''like'' (QStr ''a.b (c)'')) =
     Inr (Some \<lparr>spPath = None,
                spValue = QObj [(''$and'',
                  QArr [QObj [(''title'', QObj [(''$options'', QStr ''i''),
                                (''$regex'', QStr (''a'' @ [CHR 0x5C] @ ''.b''))])],
                        QObj [(''title'', QObj [(''$options'', QStr ''i''),
                                (''$regex'', QStr ([CHR 0x5C] @ ''(c'' @ [CHR 0x5C] @ '')''))])]])]\<rparr>,
          pl, proj))"
proof -
  let ?a = "demoArgs ''title'' ''like'' (QStr ''red fox'')"
  let ?b = "demoArgs ''title'' ''like'' (QStr ''a.b (c)'')"
  let ?p0 = "demoSegment ''posts'' (FText (plainCommon ''title'') False) ''title''"
  have a1: "resolvePaths (demoExt titleOnly) (argPayload ?a) (argCollectionSlug ?a) (argFields ?a)
      (argGlobalSlug ?a) (argIncomingPath ?a) (argLocale ?a) = Inr (?p0 # [], False)"
    by (simp add: resolvePaths_def sanitizePath_def demoExt_def demoArgs_def titleOnly_def Let_def)
  have b1: "resolvePaths (demoExt titleOnly) (argPayload ?b) (argCollectionSlug ?b) (argFields ?b)
      (argGlobalSlug ?b) (argIncomingPath ?b) (argLocale ?b) = Inr (?p0 # [], False)"
    by (simp add: resolvePaths_def sanitizePath_def demoExt_def demoArgs_def titleOnly_def Let_def)
  have h2: "path ?p0 \<noteq> []" by (simp add: demoSegment_def)
  have a3: "sanitizeQueryValue (demoExt titleOnly) (field ?p0) False (argOperator ?a) (path ?p0) (argVal ?a) =
     \<lparr>sanOperator = Some ''like'', rawQuery = None, sanVal = QStr ''red fox''\<rparr>"
    by (simp add: demoExt_def demoArgs_def)
  have b3: "sanitizeQueryValue (demoExt titleOnly) (field ?p0) False (argOperator ?b) (path ?p0) (argVal ?b) =
     \<lparr>sanOperator = Some ''like'', rawQuery = None, sanVal = QStr ''a.b (c)''\<rparr>"
    by (simp add: demoExt_def demoArgs_def)
  have h4: "([] :: PathToQuery list) = [] \<longrightarrow> \<not> isRelationshipOrUpload (field ?p0)"
    by (simp add: demoSegment_def isRelationshipOrUpload_def)
  have h5: "([] :: PathToQuery list) \<noteq> [] \<longrightarrow> path (last []) \<noteq> ''id''" by simp
  have h6: "list_all (\<lambda>p. collectionSlug p \<noteq> None) ([] :: PathToQuery list)" by simp
  show ?thesis
    using like_splits_at_single_spaces[OF a1 h2 a3 h4 h5 h6]
          like_splits_at_single_spaces[OF b1 h2 b3 h4 h5 h6]
    by (simp add: demoSegment_def)
qed

text \<open>
  Claim C5 as stated fails for \<open>"red  fox"\<close> with two spaces: its whitespace-separated tokens
  are \<open>red\<close> and \<open>fox\<close>, and the code produces three fragments, the middle one with the
  empty pattern.
\<close>

theorem like_adjacent_spaces_empty_fragment:
  "whitespaceTokens ''red  fox'' = [''red'', ''fox''] \<and>
   buildSearchParam (demoExt titleOnly) (demoArgs ''title'' ''like'' (QStr ''red  fox'')) =
     Inr (Some \<lparr>spPath = None,
                spValue = QObj [(''$and'',
                  QArr [QObj [(''title'', QObj [(''$options'', QStr ''i''), (''$regex'', QStr ''red'')])],
                        QObj [(''title'', QObj [(''$options'', QStr ''i''), (''$regex'', QStr [])])],
                        QObj [(''title'', QObj [(''$options'', QStr ''i''), (''$regex'', QStr ''fox'')])]])]\<rparr>,
          [], None)"
  by (simp add: bsp_defs demo_defs titleOnly_def Let_def whitespaceTokens_def isWhitespace_def
      escapeRegex_def regexMetaChars_def)

text \<open>
  Claim C6. For every payload and collection slug, the paths \<open>id\<close> and \<open>_id\<close> resolve to
  exactly one segment, with \<open>complete = true\<close> and the path \<open>_id\<close>, whose field has the name
  \<open>id\<close> and as its type the \<open>customIDType\<close> that \<open>payload.collections[collectionSlug]\<close>
  declares: a \<open>number\<close> field for \<open>number\<close>, a \<open>text\<close> field for \<open>text\<close>, and a \<open>text\<close> field when
  the collection declares none, is unknown, or no slug is given. The flag \<open>hasCustomID\<close>
  says whether a type is declared.
\<close>

theorem identity_path_single_complete_segment:
  assumes "p = ''id'' \<or> p = ''_id''"
  shows "let idc = \<lparr>name = Some ''id'', required = False, condition = False, typescriptSchema = []\<rparr>;
             declared = (case cslug of
                           None \<Rightarrow> None
                         | Some s \<Rightarrow> (case collections payload s of
                                        None \<Rightarrow> None
                                      | Some col \<Rightarrow> customIDType col))
         in resolvePaths ext payload cslug flds globalSlug p localeCode =
              Inr ([\<lparr>collectionSlug = cslug, complete = True,
                     field = (case declared of
                                Some IdNumber \<Rightarrow> FNumber idc False
                              | _ \<Rightarrow> FText idc False),
                     path = ''_id''\<rparr>], declared \<noteq> None)
            \<and> typeOf (FNumber idc False) = ''number'' \<and> typeOf (FText idc False) = ''text''"
  using assms
  by (auto simp: resolvePaths_def sanitizePath_def idField_def customIDTypeOf_def Let_def
      split: option.splits idType.splits)

text \<open>Claim C6 at the collection \<open>category\<close>, which declares numeric IDs, and at \<open>posts\<close>,
  which declares none.\<close>

theorem identity_path_single_complete_segment_witness:
  "resolvePaths (demoExt []) demoPayload (Some ''category'') [] None ''id'' None =
     Inr ([\<lparr>collectionSlug = Some ''category'', complete = True,
            field = FNumber \<lparr>name = Some ''id'', required = False, condition = False,
                             typescriptSchema = []\<rparr> False,
            path = ''_id''\<rparr>], True)
   \<and> resolvePaths (demoExt []) demoPayload (Some ''posts'') [] None ''_id'' None =
     Inr ([\<lparr>collectionSlug = Some ''posts'', complete = True,
            field = FText \<lparr>name = Some ''id'', required = False, condition = False,
                           typescriptSchema = []\<rparr> False,
            path = ''_id''\<rparr>], False)"
proof -
  have h1: "''id'' = ''id'' \<or> ''id'' = ''_id''" by simp
  have h2: "''_id'' = ''id'' \<or> ''_id'' = ''_id''" by simp
  from identity_path_single_complete_segment[OF h1, where ext = "demoExt []"
         and payload = demoPayload and cslug = "Some ''category''" and flds = "[]"
         and globalSlug = None and localeCode = None]
       identity_path_single_complete_segment[OF h2, where ext = "demoExt []"
         and payload = demoPayload and cslug = "Some ''posts''" and flds = "[]"
         and globalSlug = None and localeCode = None]
  show ?thesis by (simp add: demoPayload_def Let_def)
qed

text \<open>
  Claim C4. \<open>buildQuery\<close> returns whatever \<open>parseParams\<close> returns: the list \<open>errors\<close> is empty
  when it is tested, so no \<open>QueryError\<close> is ever raised from it. And \<open>buildSearchParam\<close>
  answers a leaf with the operator \<open>bogus_op\<close> with \<open>undefined\<close>, without an error.
\<close>

theorem buildQuery_never_raises_QueryError:
  "buildQuery parseParams cslug versionsFields globalSlug localeCode payload pl proj wh =
     (case queryFields versionsFields cslug globalSlug payload of
        Inl e \<Rightarrow> Inl e
      | Inr flds \<Rightarrow> parseParams cslug flds globalSlug localeCode payload pl proj wh)
   \<and> buildSearchParam (demoExt titleOnly) (demoArgs ''title'' ''bogus_op'' (QStr ''x'')) =
       Inr (None, [], None)"
  by (simp add: buildQuery_def bsp_defs demo_defs titleOnly_def Let_def split: sum.splits)
section \<open>Schema derivation: theorems\<close>

subsection \<open>Equations of the derivation, one per case\<close>

lemma From_Nil: "fieldsToJSONSchemaFrom ids [] st = Inr st"
  by (subst fieldsToJSONSchemaFrom.simps) simp

lemma From_Cons:
  "fieldsToJSONSchemaFrom ids (f # rest) (fieldSchemas, requiredFieldNames, reg) =
     (case switchField ids f (fieldAffectsData f \<and> fieldIsRequired f)
             (fieldSchemas,
              if fieldAffectsData f \<and> fieldIsRequired f then addName (nameOf f) requiredFieldNames
              else requiredFieldNames, reg) of
        Inl e \<Rightarrow> Inl e
      | Inr (fieldSchema, fieldSchemas2, requiredFieldNames2, reg2) \<Rightarrow>
          fieldsToJSONSchemaFrom ids rest
            (if truthy (foldl (\<lambda>s schema. schema s) fieldSchema (typescriptSchema (commonOf f)))
                \<and> fieldAffectsData f
             then AList.update (nameOf f)
                    (foldl (\<lambda>s schema. schema s) fieldSchema (typescriptSchema (commonOf f)))
                    fieldSchemas2
             else fieldSchemas2,
             requiredFieldNames2, reg2))"
  by (subst fieldsToJSONSchemaFrom.simps) (simp only: list.case prod.case Let_def)

lemma switchField_RichText:
  "switchField ids (FRichText c ed) r (fs, rq, reg) =
     (case ed of
        None \<Rightarrow> Inl (MissingEditorProp (FRichText c ed))
      | Some EditorFunction \<Rightarrow> Inl (Error ''Attempted to access unsanitized rich text editor.'')
      | Some (SanitizedEditor (Some out)) \<Rightarrow>
          (case out ids r reg of (fieldSchema, reg2) \<Rightarrow> Inr (fieldSchema, fs, rq, reg2))
      | Some (SanitizedEditor None) \<Rightarrow>
          Inr (JObj [(''type'', withNullableJSONSchemaType (JStr ''array'') r),
                     (''items'', JObj [(''type'', JStr ''object'')])], fs, rq, reg))"
  by (subst switchField.simps) simp

lemma switchField_Blocks:
  "switchField ids (FBlocks c blocks) r (fs, rq, reg) =
     (if blocks = [] then
        Inr (JObj [(''type'', withNullableJSONSchemaType (JStr ''array'') r), (''items'', JObj [])],
             fs, rq, reg)
      else
        (case blockSchemas ids blocks reg of
           Inl e \<Rightarrow> Inl e
         | Inr (schemas, reg2) \<Rightarrow>
             Inr (JObj [(''type'', withNullableJSONSchemaType (JStr ''array'') r),
                        (''items'', JObj [(''oneOf'', JArr schemas)])], fs, rq, reg2)))"
  by (subst switchField.simps) simp

lemma switchField_Array:
  "switchField ids (FArray c interfaceName subFields) r (fs, rq, reg) =
     (case fieldsToJSONSchemaFrom ids subFields ([], [], reg) of
        Inl e \<Rightarrow> Inl e
      | Inr (props, req, reg2) \<Rightarrow>
          (if truthyString interfaceName then
             Inr (refTo (the interfaceName), fs, rq,
                  AList.update (the interfaceName)
                    (JObj [(''type'', withNullableJSONSchemaType (JStr ''array'') r),
                           (''items'', objectSchema props req)]) reg2)
           else Inr (JObj [(''type'', withNullableJSONSchemaType (JStr ''array'') r),
                           (''items'', objectSchema props req)], fs, rq, reg2)))"
  by (subst switchField.simps) (simp add: Let_def split: sum.splits)

lemma switchField_Row:
  "switchField ids (FRow c subFields) r (fs, rq, reg) =
     (case fieldsToJSONSchemaFrom ids subFields ([], [], reg) of
        Inl e \<Rightarrow> Inl e
      | Inr (props, req, reg2) \<Rightarrow> Inr (JUndefined, setAll props fs, addAll req rq, reg2))"
  by (subst switchField.simps) simp

lemma switchField_Collapsible:
  "switchField ids (FCollapsible c subFields) r (fs, rq, reg) =
     (case fieldsToJSONSchemaFrom ids subFields ([], [], reg) of
        Inl e \<Rightarrow> Inl e
      | Inr (props, req, reg2) \<Rightarrow> Inr (JUndefined, setAll props fs, addAll req rq, reg2))"
  by (subst switchField.simps) simp

lemma switchField_Tabs:
  "switchField ids (FTabs c tabs) r st =
     (case tabSchemas ids tabs st of Inl e \<Rightarrow> Inl e | Inr st2 \<Rightarrow> Inr (JUndefined, st2))"
  by (subst switchField.simps) (simp split: prod.splits)

lemma switchField_Group:
  "switchField ids (FGroup c interfaceName subFields) r (fs, rq, reg) =
     (case fieldsToJSONSchemaFrom ids subFields ([], [], reg) of
        Inl e \<Rightarrow> Inl e
      | Inr (props, req, reg2) \<Rightarrow>
          (if truthyString interfaceName then
             Inr (refTo (the interfaceName), fs, rq,
                  AList.update (the interfaceName) (objectSchema props req) reg2)
           else Inr (objectSchema props req, fs, rq, reg2)))"
  by (subst switchField.simps) (simp add: Let_def split: sum.splits)

lemma switchField_leaf:
  "isLeaf f \<Longrightarrow> switchField ids f r st = Inr (leafFieldSchema ids f r, st)"
  by (subst switchField.simps) (cases f; simp add: isLeaf_def split: prod.splits)

lemma blockSchemas_Nil: "blockSchemas ids [] reg = Inr ([], reg)"
  by (subst blockSchemas.simps) simp

lemma blockSchemas_Cons:
  "blockSchemas ids (Block blockSlug interfaceName subFields # rest) reg =
     (case fieldsToJSONSchemaFrom ids subFields ([], [], reg) of
        Inl e \<Rightarrow> Inl e
      | Inr (props, req, reg2) \<Rightarrow>
          (case blockSchemas ids rest
                  (if truthyString interfaceName
                   then AList.update (the interfaceName)
                          (JObj [(''type'', JStr ''object''), (''additionalProperties'', JBool False),
                                 (''properties'', JObj (AList.update ''blockType''
                                     (JObj [(''const'', JStr blockSlug)]) props)),
                                 (''required'', JArr (map JStr (''blockType'' # req)))]) reg2
                   else reg2) of
             Inl e \<Rightarrow> Inl e
           | Inr (schemas, reg3) \<Rightarrow>
               Inr ((if truthyString interfaceName then refTo (the interfaceName)
                     else JObj [(''type'', JStr ''object''), (''additionalProperties'', JBool False),
                                (''properties'', JObj (AList.update ''blockType''
                                    (JObj [(''const'', JStr blockSlug)]) props)),
                                (''required'', JArr (map JStr (''blockType'' # req)))]) # schemas,
                    reg3)))"
  by (subst blockSchemas.simps) (simp add: Let_def split: sum.splits)

lemma tabSchemas_Nil: "tabSchemas ids [] st = Inr st"
  by (subst tabSchemas.simps) simp

lemma tabSchemas_Cons:
  "tabSchemas ids (Tab tabName subFields # rest) (fs, rq, reg) =
     (case fieldsToJSONSchemaFrom ids subFields ([], [], reg) of
        Inl e \<Rightarrow> Inl e
      | Inr (props, req, reg2) \<Rightarrow>
          (case tabName of
             Some n \<Rightarrow>
               tabSchemas ids rest
                 (AList.update n (objectSchema props req) fs,
                  if someRequired subFields then addName n rq else rq, reg2)
           | None \<Rightarrow> tabSchemas ids rest (setAll props fs, addAll req rq, reg2)))"
  by (subst tabSchemas.simps) simp

subsection \<open>Which derivations fail\<close>

lemma failsOrNot_bind:
  assumes "failsOrNot ok1 res" and "\<And>x. res = Inr x \<Longrightarrow> failsOrNot ok2 (k x)"
  shows "failsOrNot (ok1 \<and> ok2) (case res of Inl e \<Rightarrow> Inl e | Inr x \<Rightarrow> k x)"
  using assms by (auto simp: failsOrNot_def split: if_splits)

lemma failsOrNot_Inr: "failsOrNot True (Inr x)"
  by (simp add: failsOrNot_def)

lemma sub_failsOrNot:
  assumes "failsOrNot ok res"
    and "\<And>x. \<exists>y. k x = Inr y"
  shows "failsOrNot ok (case res of Inl e \<Rightarrow> Inl e | Inr x \<Rightarrow> k x)"
  using assms by (auto simp: failsOrNot_def split: sum.splits if_splits)

lemma fields_failsOrNot:
  assumes "\<And>f r st. f \<in> set flds \<Longrightarrow> failsOrNot (editorSanitized f) (switchField ids f r st)"
  shows "failsOrNot (editorsSanitized flds) (fieldsToJSONSchemaFrom ids flds st)"
  using assms
proof (induction flds arbitrary: st)
  case Nil
  show ?case by (simp add: From_Nil failsOrNot_Inr)
next
  case (Cons f rest)
  obtain fs rq reg where st: "st = (fs, rq, reg)" by (metis prod_cases3)
  have p: "\<And>f r st. f \<in> set rest \<Longrightarrow>
             failsOrNot (editorSanitized f) (switchField ids f r st)"
    using Cons.prems by (meson list.set_intros(2))
  have rest: "\<And>st'. failsOrNot (editorsSanitized rest) (fieldsToJSONSchemaFrom ids rest st')"
    by (rule Cons.IH) (rule p)
  show ?case
    unfolding st From_Cons editorsSanitized.simps
    by (rule failsOrNot_bind) (use Cons.prems rest in \<open>auto split: prod.splits\<close>)
qed

lemma blocks_failsOrNot:
  assumes "\<And>s i fs st. Block s i fs \<in> set blocks \<Longrightarrow>
             failsOrNot (editorsSanitized fs) (fieldsToJSONSchemaFrom ids fs st)"
  shows "failsOrNot (blockEditorsSanitized blocks) (blockSchemas ids blocks reg)"
  using assms
proof (induction blocks arbitrary: reg)
  case Nil
  show ?case by (simp add: blockSchemas_Nil failsOrNot_Inr)
next
  case (Cons b rest)
  obtain s i fs where b: "b = Block s i fs" by (cases b) auto
  have p: "\<And>s i fs st. Block s i fs \<in> set rest \<Longrightarrow>
             failsOrNot (editorsSanitized fs) (fieldsToJSONSchemaFrom ids fs st)"
    using Cons.prems by (meson list.set_intros(2))
  have rest: "\<And>reg'. failsOrNot (blockEditorsSanitized rest) (blockSchemas ids rest reg')"
    by (rule Cons.IH) (rule p)
  have hd: "\<And>st. failsOrNot (editorsSanitized fs) (fieldsToJSONSchemaFrom ids fs st)"
    by (rule Cons.prems[of s i]) (simp add: b)
  show ?case
    unfolding b blockSchemas_Cons blockEditorsSanitized.simps
  proof (rule failsOrNot_bind[OF hd], goal_cases)
    case (1 x)
    obtain props req reg2 where x: "x = (props, req, reg2)" by (cases x) auto
    show ?case
      unfolding x prod.case
      by (rule sub_failsOrNot[OF rest]) (auto split: prod.splits)
  qed
qed

lemma tabs_failsOrNot:
  assumes "\<And>n fs st. Tab n fs \<in> set tabs \<Longrightarrow>
             failsOrNot (editorsSanitized fs) (fieldsToJSONSchemaFrom ids fs st)"
  shows "failsOrNot (tabEditorsSanitized tabs) (tabSchemas ids tabs st)"
  using assms
proof (induction tabs arbitrary: st)
  case Nil
  show ?case by (simp add: tabSchemas_Nil failsOrNot_Inr)
next
  case (Cons t rest)
  obtain n fs where t: "t = Tab n fs" by (cases t) auto
  obtain fs0 rq reg where st: "st = (fs0, rq, reg)" by (metis prod_cases3)
  have p: "\<And>n fs st. Tab n fs \<in> set rest \<Longrightarrow>
             failsOrNot (editorsSanitized fs) (fieldsToJSONSchemaFrom ids fs st)"
    using Cons.prems by (meson list.set_intros(2))
  have rest: "\<And>st'. failsOrNot (tabEditorsSanitized rest) (tabSchemas ids rest st')"
    by (rule Cons.IH) (rule p)
  have hd: "\<And>st. failsOrNot (editorsSanitized fs) (fieldsToJSONSchemaFrom ids fs st)"
    by (rule Cons.prems[of n]) (simp add: t)
  show ?case
    unfolding t st tabSchemas_Cons tabEditorsSanitized.simps
    by (rule failsOrNot_bind[OF hd]) (use rest in \<open>auto split: prod.splits option.splits\<close>)
qed

lemma field_failsOrNot:
  "(\<forall>r st. failsOrNot (editorSanitized f) (switchField ids f r st))
   \<and> (\<forall>st. case b of Block s i fs \<Rightarrow>
          failsOrNot (editorsSanitized fs) (fieldsToJSONSchemaFrom ids fs st))
   \<and> (\<forall>st. case t of Tab n fs \<Rightarrow>
          failsOrNot (editorsSanitized fs) (fieldsToJSONSchemaFrom ids fs st))"
proof (rule field_block_tab.induct, goal_cases)
  case (9 c ed)
  show ?case
  proof (intro allI)
    fix r and st :: schemaState
    obtain fs rq reg where st: "st = (fs, rq, reg)" by (metis prod_cases3)
    show "failsOrNot (editorSanitized (FRichText c ed)) (switchField ids (FRichText c ed) r st)"
      unfolding st switchField_RichText
      by (auto simp: editorSanitized.simps failsOrNot_def isEditorError_def
          split: option.splits editor.splits prod.splits)
  qed
next
  case (16 c blocks)
  have "\<And>reg. failsOrNot (blockEditorsSanitized blocks) (blockSchemas ids blocks reg)"
    by (rule blocks_failsOrNot) (use 16 in fastforce)
  then show ?case
    by (cases "blocks = []")
       (auto simp: switchField_Blocks editorSanitized.simps failsOrNot_Inr
          intro!: sub_failsOrNot split: prod.splits)
next
  case (17 c i subs)
  have "\<And>st. failsOrNot (editorsSanitized subs) (fieldsToJSONSchemaFrom ids subs st)"
    by (rule fields_failsOrNot) (use 17 in auto)
  then show ?case
    by (auto simp: switchField_Array editorSanitized.simps intro!: sub_failsOrNot split: prod.splits)
next
  case (18 c subs)
  have "\<And>st. failsOrNot (editorsSanitized subs) (fieldsToJSONSchemaFrom ids subs st)"
    by (rule fields_failsOrNot) (use 18 in auto)
  then show ?case
    by (auto simp: switchField_Row editorSanitized.simps intro!: sub_failsOrNot split: prod.splits)
next
  case (19 c subs)
  have "\<And>st. failsOrNot (editorsSanitized subs) (fieldsToJSONSchemaFrom ids subs st)"
    by (rule fields_failsOrNot) (use 19 in auto)
  then show ?case
    by (auto simp: switchField_Collapsible editorSanitized.simps intro!: sub_failsOrNot
        split: prod.splits)
next
  case (20 c tabs)
  have "\<And>st. failsOrNot (tabEditorsSanitized tabs) (tabSchemas ids tabs st)"
    by (rule tabs_failsOrNot) (use 20 in fastforce)
  then show ?case
    by (auto simp: switchField_Tabs editorSanitized.simps intro!: sub_failsOrNot)
next
  case (21 c i subs)
  have "\<And>st. failsOrNot (editorsSanitized subs) (fieldsToJSONSchemaFrom ids subs st)"
    by (rule fields_failsOrNot) (use 21 in auto)
  then show ?case
    by (auto simp: switchField_Group editorSanitized.simps intro!: sub_failsOrNot split: prod.splits)
next
  case (23 s i fs)
  have "\<And>st. failsOrNot (editorsSanitized fs) (fieldsToJSONSchemaFrom ids fs st)"
    by (rule fields_failsOrNot) (use 23 in auto)
  then show ?case by simp
next
  case (24 n fs)
  have "\<And>st. failsOrNot (editorsSanitized fs) (fieldsToJSONSchemaFrom ids fs st)"
    by (rule fields_failsOrNot) (use 24 in auto)
  then show ?case by simp
qed (simp_all add: switchField_leaf isLeaf_def editorSanitized.simps failsOrNot_Inr)

lemma derivation_failsOrNot:
  "failsOrNot (editorsSanitized flds) (fieldsToJSONSchemaFrom ids flds st)"
  by (rule fields_failsOrNot) (use field_failsOrNot in blast)

subsection \<open>Writing entries into a map kept as a list\<close>






subsection \<open>The derivation never reads the registry\<close>













subsection \<open>Which registry entries a derivation leaves alone\<close>







subsection \<open>The last shape that carries an interface name\<close>









subsection \<open>What a derivation does to the registry\<close>












subsection \<open>Field lists derived one after the other\<close>














subsection \<open>Evaluating the derivation on concrete field models\<close>



subsection \<open>Interface names\<close>




subsection \<open>Failures of the derivation\<close>

text \<open>
  Claim C8. For every list of fields, table of ID types and registry, the derivation
  returns a result when every rich text field of the tree has a resolved editor object, and
  otherwise fails with one of the two errors of lines 228-234: \<open>MissingEditorProp\<close> for a
  rich text field without an editor, or the error \<open>Attempted to access unsanitized rich text
  editor.\<close> for an editor in function form. A rich text field without an editor at the head
  of the list gives the first error, one with an editor in function form the second.
\<close>

theorem derivation_fails_only_on_unresolved_editor:
  "(editorsSanitized flds \<longrightarrow> (\<exists>res. fieldsToJSONSchema ids flds reg = Inr res))
   \<and> (\<not> editorsSanitized flds \<longrightarrow>
        (\<exists>e. fieldsToJSONSchema ids flds reg = Inl e \<and> isEditorError e))
   \<and> fieldsToJSONSchema ids (FRichText c None # rest) reg =
        Inl (MissingEditorProp (FRichText c None))
   \<and> fieldsToJSONSchema ids (FRichText c (Some EditorFunction) # rest) reg =
        Inl (Error ''Attempted to access unsanitized rich text editor.'')"
  using derivation_failsOrNot[of flds ids "([], [], reg)"]
  by (auto simp: fieldsToJSONSchema_def failsOrNot_def From_Cons switchField_RichText)

text \<open>Claim C8 at a list whose rich text fields are all resolved (it has none), at a list
  with a rich text field, inside a group, whose editor is in function form, and at a rich
  text field without an editor.\<close>

theorem derivation_fails_only_on_unresolved_editor_witness:
  "(\<exists>res. fieldsToJSONSchema Map.empty [FText (plainCommon ''title'') False, fooArray] [] = Inr res)
   \<and> (\<exists>e. fieldsToJSONSchema Map.empty unsanitizedFields [] = Inl e \<and> isEditorError e)
   \<and> fieldsToJSONSchema Map.empty missingEditorFields [] =
        Inl (MissingEditorProp (FRichText (plainCommon ''body'') None))"
proof -
  have h1: "editorsSanitized [FText (plainCommon ''title'') False, fooArray]"
    by (simp add: editorSanitized.simps fooArray_def)
  have h2: "\<not> editorsSanitized unsanitizedFields"
    by (simp add: editorSanitized.simps unsanitizedFields_def)
  from derivation_fails_only_on_unresolved_editor
         [of "[FText (plainCommon ''title'') False, fooArray]" Map.empty "[]"]
       derivation_fails_only_on_unresolved_editor
         [of unsanitizedFields Map.empty "[]" "plainCommon ''body''" "[]"]
       h1 h2
  show ?thesis unfolding missingEditorFields_def by blast
qed

end
